theory Spec2Isabelle
  imports Complex_Main
begin

section \<open>Upload history (class UploadHistory)\<close>

text \<open>
  A history record is a JSON object (a Python dict). The source reads its keys with
  \<open>record.get(key)\<close>, so a key can be missing, hold \<open>null\<close> (Python \<open>None\<close>),
  or hold a value.
\<close>

datatype 'a jfield = Missing | Null | Val 'a

record success_record =
  file_path :: "string jfield"
  file_size :: "int jfield"
  bvid :: "string jfield"
  upload_time :: string
  is_split :: bool
  parts :: "string list"

record failed_record =
  failed_path :: "string option"
  error_msg :: string
  failed_time :: string

text \<open>
  The two JSON files on disk. A file that was opened for writing and whose dump did not
  finish holds a strict prefix of a JSON array, which \<open>json.load\<close> refuses.
\<close>

datatype 'a file_state = Absent | Content "'a list" | Corrupt

text \<open>
  What the environment does with one \<open>open(file, 'w')\<close> followed by \<open>json.dump\<close>:
  both succeed, \<open>open\<close> raises (the file is untouched), or \<open>open\<close> has truncated the
  file and the dump raises before the end.
\<close>

datatype write_outcome = WriteOk | OpenFailed | DumpFailed

record upload_history =
  history :: "success_record list"
  failed :: "failed_record list"
  history_file :: "success_record file_state"
  failed_file :: "failed_record file_state"

definition load_file :: "'a file_state \<Rightarrow> 'a list" where
  "load_file f = (case f of Absent \<Rightarrow> [] | Content rs \<Rightarrow> rs | Corrupt \<Rightarrow> [])"

definition init_history :: "success_record file_state \<Rightarrow> failed_record file_state \<Rightarrow> upload_history" where
  "init_history hf ff =
     \<lparr>history = load_file hf, failed = load_file ff, history_file = hf, failed_file = ff\<rparr>"

definition write_file :: "write_outcome \<Rightarrow> 'a list \<Rightarrow> 'a file_state \<Rightarrow> 'a file_state" where
  "write_file w rs f = (case w of WriteOk \<Rightarrow> Content rs | OpenFailed \<Rightarrow> f | DumpFailed \<Rightarrow> Corrupt)"

text \<open>\<open>_save_history\<close> and \<open>_save_failed\<close>: the exception of a failed write is logged and dropped.\<close>

definition save_history :: "write_outcome \<Rightarrow> upload_history \<Rightarrow> upload_history" where
  "save_history w h = h\<lparr>history_file := write_file w (history h) (history_file h)\<rparr>"

definition save_failed :: "write_outcome \<Rightarrow> upload_history \<Rightarrow> upload_history" where
  "save_failed w h = h\<lparr>failed_file := write_file w (failed h) (failed_file h)\<rparr>"

definition record_matches :: "string \<Rightarrow> int \<Rightarrow> success_record \<Rightarrow> bool" where
  "record_matches p s r \<longleftrightarrow> file_path r = Val p \<and> file_size r = Val s"

fun is_uploaded_loop :: "success_record list \<Rightarrow> string \<Rightarrow> int \<Rightarrow> bool" where
  "is_uploaded_loop [] p s = False"
| "is_uploaded_loop (r # rs) p s = (if record_matches p s r then True else is_uploaded_loop rs p s)"

definition is_uploaded :: "upload_history \<Rightarrow> string \<Rightarrow> int \<Rightarrow> bool" where
  "is_uploaded h p s = is_uploaded_loop (history h) p s"

text \<open>
  \<open>add_success\<close>. The clock (\<open>datetime.now()\<close>, formatted) and the outcome of the file
  write are given by the environment. \<open>bvid\<close> is \<open>None\<close> when the caller passes a missing
  target id; \<open>parts or []\<close> turns a missing list into the empty one.
\<close>

definition add_success ::
  "write_outcome \<Rightarrow> string \<Rightarrow> string \<Rightarrow> int \<Rightarrow> string option \<Rightarrow> bool \<Rightarrow> string list option
     \<Rightarrow> upload_history \<Rightarrow> upload_history" where
  "add_success w now p s b split ps h =
     save_history w (h\<lparr>history := history h @
        [\<lparr>file_path = Val p, file_size = Val s,
          bvid = (case b of None \<Rightarrow> Null | Some v \<Rightarrow> Val v),
          upload_time = now, is_split = split,
          parts = (case ps of None \<Rightarrow> [] | Some l \<Rightarrow> l)\<rparr>]\<rparr>)"

definition add_failed ::
  "write_outcome \<Rightarrow> string \<Rightarrow> string option \<Rightarrow> string \<Rightarrow> upload_history \<Rightarrow> upload_history" where
  "add_failed w now p msg h =
     save_failed w (h\<lparr>failed := failed h @ [\<lparr>failed_path = p, error_msg = msg, failed_time = now\<rparr>]\<rparr>)"

text \<open>\<open>get_uploaded_count\<close>: membership by path alone, the path being \<open>folder/video\<close>.\<close>

definition path_known :: "upload_history \<Rightarrow> string \<Rightarrow> bool" where
  "path_known h p \<longleftrightarrow> list_ex (\<lambda>r. file_path r = Val p) (history h)"

fun count_uploaded_loop :: "upload_history \<Rightarrow> string \<Rightarrow> string list \<Rightarrow> nat" where
  "count_uploaded_loop h folder [] = 0"
| "count_uploaded_loop h folder (v # vs) =
     (if path_known h (folder @ ''/'' @ v) then 1 else 0) + count_uploaded_loop h folder vs"

definition get_uploaded_count :: "upload_history \<Rightarrow> string list \<Rightarrow> string \<Rightarrow> nat \<times> nat" where
  "get_uploaded_count h vs folder =
     (let uploaded = count_uploaded_loop h folder vs in (uploaded, length vs - uploaded))"

subsection \<open>Revalidation (prune_invalid_records)\<close>

text \<open>Python truthiness of \<open>record.get('bvid')\<close>: a missing key, \<open>None\<close> and \<open>''\<close> are falsy.\<close>

definition bvid_truthy :: "string jfield \<Rightarrow> bool" where
  "bvid_truthy b = (case b of Val v \<Rightarrow> v \<noteq> [] | _ \<Rightarrow> False)"

text \<open>
  The first loop. \<open>uploader.validate_bvid\<close> asks the publish client; its answer is the
  injected predicate \<open>validate\<close>. The loop returns the counter and both lists.
\<close>

fun prune_scan ::
  "(string \<Rightarrow> bool) \<Rightarrow> success_record list \<Rightarrow> nat \<Rightarrow> success_record list \<Rightarrow> success_record list
     \<Rightarrow> nat \<times> success_record list \<times> success_record list" where
  "prune_scan validate [] checked valid invalid = (checked, valid, invalid)"
| "prune_scan validate (r # rs) checked valid invalid =
     (case bvid r of
        Val v \<Rightarrow>
          (if v = [] then prune_scan validate rs (checked + 1) valid (invalid @ [r])
           else if validate v then prune_scan validate rs (checked + 1) (valid @ [r]) invalid
           else prune_scan validate rs (checked + 1) valid (invalid @ [r]))
      | _ \<Rightarrow> prune_scan validate rs (checked + 1) valid (invalid @ [r]))"

text \<open>The literals of the source are Chinese; they are given here as their UTF-8 bytes.\<close>

definition unknown_path :: string where
  "unknown_path = [CHR 0xE6, CHR 0x9C, CHR 0xAA, CHR 0xE7, CHR 0x9F, CHR 0xA5, CHR 0xE8, CHR 0xB7,
     CHR 0xAF, CHR 0xE5, CHR 0xBE, CHR 0x84]"

definition unknown_bvid :: string where
  "unknown_bvid = [CHR 0xE6, CHR 0x9C, CHR 0xAA, CHR 0xE7, CHR 0x9F, CHR 0xA5, CHR ''B'', CHR ''V'',
     CHR 0xE5, CHR 0x8F, CHR 0xB7]"

definition prune_msg :: "string \<Rightarrow> string" where
  "prune_msg b =
     [CHR 0xE5, CHR 0x8E, CHR 0x86, CHR 0xE5, CHR 0x8F, CHR 0xB2, CHR 0xE8, CHR 0xAE, CHR 0xB0,
      CHR 0xE5, CHR 0xBD, CHR 0x95, CHR 0xE6, CHR 0xA0, CHR 0xA1, CHR 0xE9, CHR 0xAA, CHR 0x8C,
      CHR 0xE5, CHR 0xA4, CHR 0xB1, CHR 0xE8, CHR 0xB4, CHR 0xA5, CHR 0xEF, CHR 0xBC, CHR 0x8C,
      CHR 0xE7, CHR 0xA8, CHR 0xBF, CHR 0xE4, CHR 0xBB, CHR 0xB6, CHR '' ''] @ b @
     [CHR '' '', CHR 0xE4, CHR 0xB8, CHR 0x8D, CHR 0xE5, CHR 0xAD, CHR 0x98, CHR 0xE5, CHR 0x9C,
      CHR 0xA8, CHR 0xE6, CHR 0x88, CHR 0x96, CHR 0xE5, CHR 0xB7, CHR 0xB2, CHR 0xE5, CHR 0x88,
      CHR 0xA0, CHR 0xE9, CHR 0x99, CHR 0xA4]"

text \<open>\<open>record.get('file_path', default)\<close> and the \<open>bvid\<close> as the f-string prints it.\<close>

definition prune_path :: "success_record \<Rightarrow> string option" where
  "prune_path r = (case file_path r of Missing \<Rightarrow> Some unknown_path | Null \<Rightarrow> None | Val p \<Rightarrow> Some p)"

definition prune_bvid_text :: "success_record \<Rightarrow> string" where
  "prune_bvid_text r = (case bvid r of Missing \<Rightarrow> unknown_bvid | Null \<Rightarrow> ''None'' | Val v \<Rightarrow> v)"

text \<open>
  The second loop: one \<open>add_failed\<close> per invalid record. The \<open>i\<close>-th call reads the clock
  \<open>clock i\<close> and its file write ends as \<open>wr i\<close>.
\<close>

fun prune_report ::
  "(nat \<Rightarrow> write_outcome) \<Rightarrow> (nat \<Rightarrow> string) \<Rightarrow> nat \<Rightarrow> success_record list \<Rightarrow> upload_history
     \<Rightarrow> upload_history" where
  "prune_report wr clock i [] h = h"
| "prune_report wr clock i (r # rs) h =
     prune_report wr clock (i + 1) rs
       (add_failed (wr i) (clock i) (prune_path r) (prune_msg (prune_bvid_text r)) h)"

definition prune_invalid_records ::
  "(string \<Rightarrow> bool) \<Rightarrow> write_outcome \<Rightarrow> (nat \<Rightarrow> write_outcome) \<Rightarrow> (nat \<Rightarrow> string) \<Rightarrow> upload_history
     \<Rightarrow> (nat \<times> nat) \<times> upload_history" where
  "prune_invalid_records validate wh wr clock h =
     (case prune_scan validate (history h) 0 [] [] of
        (checked, valid, invalid) \<Rightarrow>
          if invalid \<noteq> [] then
            ((checked, length invalid),
             prune_report wr clock 0 invalid (save_history wh (h\<lparr>history := valid\<rparr>)))
          else ((checked, 0), h))"

section \<open>The environment: external tools, file system, clock\<close>

text \<open>
  The Python floats of the source (sizes in GB, durations and offsets in seconds) are
  taken as exact rationals.
\<close>

datatype proc_result = Raised | Exited int string

datatype cut_outcome = CutRaised | CutDone bool

datatype event =
    EvProgress nat nat nat nat nat
  | EvMount bool
  | EvDownload string string bool
  | EvDuration string "rat option"
  | EvCut nat string rat rat string cut_outcome
  | EvCover string string
  | EvUpload string "string option" proc_result
  | EvAppend string "string option" string proc_result
  | EvCleanup string bool
  | EvSleep

text \<open>
  Every answer of the outside world may depend on all that happened before, so each
  oracle reads the trace of the calls made so far:
  \<^item> \<open>mount_result\<close>: the mount point is non-empty three seconds after \<open>rclone mount\<close>;
  \<^item> \<open>mounted_file_exists\<close>: the file is there under the mount point;
  \<^item> \<open>disk_free\<close>: the free bytes that \<open>shutil.disk_usage\<close> reports;
  \<^item> \<open>download_result\<close>, \<open>upload_result\<close>, \<open>append_result\<close>: how the child process
    ends (\<open>Raised\<close>: it could not be started or read), with its exit code and output;
  \<^item> \<open>video_duration\<close>: what \<open>get_video_duration\<close> returns;
  \<^item> \<open>cut_result\<close>: the \<open>ffmpeg\<close> cut raised, or it ran and the output file exists or not;
  \<^item> \<open>cover_exists\<close>: the cover file exists;
  \<^item> \<open>write_result\<close> and \<open>clock\<close>: the outcome of a ledger write and the formatted time.
\<close>

record env =
  mount_result :: "event list \<Rightarrow> bool"
  mounted_file_exists :: "event list \<Rightarrow> string \<Rightarrow> bool"
  disk_free :: "event list \<Rightarrow> int"
  download_result :: "event list \<Rightarrow> string \<Rightarrow> string \<Rightarrow> proc_result"
  video_duration :: "event list \<Rightarrow> string \<Rightarrow> rat option"
  cut_result :: "event list \<Rightarrow> string \<Rightarrow> rat \<Rightarrow> rat \<Rightarrow> string \<Rightarrow> cut_outcome"
  cover_exists :: "event list \<Rightarrow> string \<Rightarrow> bool"
  upload_result :: "event list \<Rightarrow> string \<Rightarrow> string option \<Rightarrow> proc_result"
  append_result :: "event list \<Rightarrow> string \<Rightarrow> string option \<Rightarrow> string \<Rightarrow> proc_result"
  write_result :: "event list \<Rightarrow> write_outcome"
  clock :: "event list \<Rightarrow> string"

record config =
  max_file_size_gb :: rat
  split_margin_gb :: rat
  retry_times :: int
  min_free_space_gb :: rat
  local_cache_path :: string
  mount_point :: string

subsection \<open>Paths and number formatting\<close>

definition path_join :: "string \<Rightarrow> string \<Rightarrow> string" where
  "path_join d f = d @ ''/'' @ f"

definition path_name :: "string \<Rightarrow> string" where
  "path_name p = rev (takeWhile (\<lambda>c. c \<noteq> CHR ''/'') (rev p))"

text \<open>\<open>Path(p).stem\<close>: the name without its last suffix; a leading or a final dot is no suffix.\<close>

definition path_stem :: "string \<Rightarrow> string" where
  "path_stem p =
     (let n = path_name p; suffix = rev (takeWhile (\<lambda>c. c \<noteq> CHR ''.'') (rev n))
      in if CHR ''.'' \<in> set n \<and> suffix \<noteq> [] \<and> length suffix + 1 < length n
         then take (length n - length suffix - 1) n else n)"

fun str_nat :: "nat \<Rightarrow> string" where
  "str_nat n = (if n < 10 then [char_of (48 + n)] else str_nat (n div 10) @ [char_of (48 + n mod 10)])"

declare str_nat.simps [simp del]

section \<open>Split planner (VideoProcessor.split_video)\<close>

definition part_file :: "string \<Rightarrow> string \<Rightarrow> nat \<Rightarrow> string" where
  "part_file output_dir video_path i =
     path_join output_dir (path_stem video_path @ ''_part'' @ str_nat (i + 1) @ ''.flv'')"

text \<open>
  The loop over \<open>range(num_parts)\<close>. An exception inside the loop leaves through the
  handler of \<open>split_video\<close>, which returns the empty list: the result \<open>None\<close> here.
\<close>

fun split_loop ::
  "env \<Rightarrow> string \<Rightarrow> string \<Rightarrow> rat \<Rightarrow> nat list \<Rightarrow> string list \<Rightarrow> event list
     \<Rightarrow> string list option \<times> event list" where
  "split_loop e video_path output_dir part_duration [] output_files tr = (Some output_files, tr)"
| "split_loop e video_path output_dir part_duration (i # rest) output_files tr =
     (let start_time = of_nat i * part_duration;
          output_file = part_file output_dir video_path i;
          r = cut_result e tr video_path start_time part_duration output_file;
          tr' = tr @ [EvCut i video_path start_time part_duration output_file r]
      in case r of
           CutRaised \<Rightarrow> (None, tr')
         | CutDone ex \<Rightarrow>
             split_loop e video_path output_dir part_duration rest
               (if ex then output_files @ [output_file] else output_files) tr')"

definition num_parts :: "config \<Rightarrow> rat \<Rightarrow> int" where
  "num_parts cfg file_size_gb = \<lceil>file_size_gb / split_margin_gb cfg\<rceil>"

text \<open>
  \<open>split_video\<close>. Dividing by a zero \<open>split_margin_gb\<close> or by a zero part count raises
  \<open>ZeroDivisionError\<close>, which the handler turns into the empty list; \<open>not duration\<close> holds
  for \<open>None\<close> and for \<open>0.0\<close>.
\<close>

definition split_video ::
  "config \<Rightarrow> env \<Rightarrow> string \<Rightarrow> string \<Rightarrow> rat \<Rightarrow> event list \<Rightarrow> string list \<times> event list" where
  "split_video cfg e video_path output_dir file_size_gb tr =
     (if split_margin_gb cfg = 0 then ([], tr)
      else
        let n = num_parts cfg file_size_gb;
            d = video_duration e tr video_path;
            tr1 = tr @ [EvDuration video_path d]
        in case d of
             None \<Rightarrow> ([], tr1)
           | Some duration \<Rightarrow>
               if duration = 0 then ([], tr1)
               else if n = 0 then ([], tr1)
               else
                 (case split_loop e video_path output_dir (duration / of_int n) [0..<nat n] [] tr1 of
                    (None, tr2) \<Rightarrow> ([], tr2)
                  | (Some output_files, tr2) \<Rightarrow> (output_files, tr2)))"

section \<open>Publish client (BilibiliUploader)\<close>

text \<open>
  \<open>re.search(r'bvid:(BV\w+)', output)\<close>: the leftmost place where \<open>bvid:BV\<close> is followed
  by a word character; group 1 is \<open>BV\<close> with the longest run of word characters. The
  output is taken as ASCII, where \<open>\w\<close> is a letter, a digit or the underscore.
\<close>

definition is_word_char :: "char \<Rightarrow> bool" where
  "is_word_char c \<longleftrightarrow>
     (let n = of_char c :: nat
      in (48 \<le> n \<and> n \<le> 57) \<or> (65 \<le> n \<and> n \<le> 90) \<or> (97 \<le> n \<and> n \<le> 122) \<or> n = 95)"

definition match_bvid_here :: "string \<Rightarrow> string option" where
  "match_bvid_here s =
     (if take 7 s = ''bvid:BV'' \<and> takeWhile is_word_char (drop 7 s) \<noteq> []
      then Some (''BV'' @ takeWhile is_word_char (drop 7 s)) else None)"

fun find_bvid :: "string \<Rightarrow> string option" where
  "find_bvid [] = None"
| "find_bvid (c # cs) =
     (case match_bvid_here (c # cs) of Some b \<Rightarrow> Some b | None \<Rightarrow> find_bvid cs)"

text \<open>
  \<open>upload_video\<close>: a non-zero exit code raises, and the handler returns \<open>None\<close>, as it
  does for any other exception; with exit code 0 the id is parsed from the output.
\<close>

definition parse_upload :: "proc_result \<Rightarrow> string option" where
  "parse_upload r =
     (case r of Raised \<Rightarrow> None | Exited rc out \<Rightarrow> if rc \<noteq> 0 then None else find_bvid out)"

definition upload_video ::
  "env \<Rightarrow> string \<Rightarrow> string option \<Rightarrow> event list \<Rightarrow> string option \<times> event list" where
  "upload_video e video_path cover_path tr =
     (let cover = (case cover_path of
                     None \<Rightarrow> None
                   | Some c \<Rightarrow> if c \<noteq> [] \<and> cover_exists e tr c then Some c else None);
          r = upload_result e tr video_path cover
      in (parse_upload r, tr @ [EvUpload video_path cover r]))"

definition proc_ok :: "proc_result \<Rightarrow> bool" where
  "proc_ok r = (case r of Raised \<Rightarrow> False | Exited rc out \<Rightarrow> rc = 0)"

definition append_video ::
  "env \<Rightarrow> string \<Rightarrow> string option \<Rightarrow> string \<Rightarrow> event list \<Rightarrow> bool \<times> event list" where
  "append_video e video_path target part_title tr =
     (let r = append_result e tr video_path target part_title
      in (proc_ok r, tr @ [EvAppend video_path target part_title r]))"

section \<open>Upload controller (UploadController)\<close>

datatype upload_mode = ModeNew | ModeAppend

record video_info =
  room_id :: string
  title :: string

record video_data =
  filename :: string
  remote_path :: string
  vsize :: int
  info :: video_info
  streamer_name :: string

record world =
  trace :: "event list"
  is_mounted :: bool
  hist :: upload_history
  stats_success :: nat
  stats_failed :: nat
  stats_skipped :: nat

definition log_event :: "event \<Rightarrow> world \<Rightarrow> world" where
  "log_event ev w = w\<lparr>trace := trace w @ [ev]\<rparr>"

text \<open>Python truthiness of an \<open>Optional[str]\<close>.\<close>

definition truthy :: "string option \<Rightarrow> bool" where
  "truthy r = (case r of None \<Rightarrow> False | Some v \<Rightarrow> v \<noteq> [])"

subsection \<open>Remote storage (RcloneManager)\<close>

definition mount :: "env \<Rightarrow> world \<Rightarrow> bool \<times> world" where
  "mount e w =
     (if is_mounted w then (True, w)
      else let b = mount_result e (trace w)
           in (b, (log_event (EvMount b) w)\<lparr>is_mounted := b\<rparr>))"

definition get_mounted_path :: "config \<Rightarrow> env \<Rightarrow> string \<Rightarrow> string \<Rightarrow> world \<Rightarrow> string option" where
  "get_mounted_path cfg e folder_name fname w =
     (if \<not> is_mounted w then None
      else let fp = path_join (path_join (mount_point cfg) folder_name) fname
           in if mounted_file_exists e (trace w) fp then Some fp else None)"

definition download_file :: "env \<Rightarrow> string \<Rightarrow> string \<Rightarrow> world \<Rightarrow> bool \<times> world" where
  "download_file e remote_file_path local_path w =
     (let ok = proc_ok (download_result e (trace w) remote_file_path local_path)
      in (ok, log_event (EvDownload remote_file_path local_path ok) w))"

subsection \<open>Path resolution (_get_video_path)\<close>

definition gib :: int where
  "gib = 1024 ^ 3"

definition space_short :: "config \<Rightarrow> int \<Rightarrow> int \<Rightarrow> bool" where
  "space_short cfg free_space sz \<longleftrightarrow> of_int (free_space - sz) < min_free_space_gb cfg * of_int gib"

definition get_video_path ::
  "config \<Rightarrow> env \<Rightarrow> string \<Rightarrow> string \<Rightarrow> int \<Rightarrow> bool \<Rightarrow> world \<Rightarrow> string option \<times> world" where
  "get_video_path cfg e rpath fname sz needs_split w =
     (let w1 = (if \<not> needs_split \<and> \<not> is_mounted w then snd (mount e w) else w);
          mounted_path =
            (if \<not> needs_split \<and> is_mounted w1
             then get_mounted_path cfg e (takeWhile (\<lambda>c. c \<noteq> CHR ''/'') rpath) fname w1
             else None)
      in case mounted_path of
           Some p \<Rightarrow> (Some p, w1)
         | None \<Rightarrow>
             if space_short cfg (disk_free e (trace w1)) sz then (None, w1)
             else
               let local_path = path_join (path_join (local_cache_path cfg) ''downloads'') fname
               in case download_file e rpath local_path w1 of
                    (ok, w2) \<Rightarrow> (if ok then Some local_path else None, w2))"

subsection \<open>Direct and split upload\<close>

definition cover_file :: "config \<Rightarrow> string \<Rightarrow> string" where
  "cover_file cfg video_path =
     path_join (path_join (local_cache_path cfg) ''covers'') (path_stem video_path @ ''.jpg'')"

definition upload_normal_video ::
  "config \<Rightarrow> env \<Rightarrow> string \<Rightarrow> video_info \<Rightarrow> upload_mode \<Rightarrow> string option \<Rightarrow> world
     \<Rightarrow> string option \<times> world" where
  "upload_normal_video cfg e video_path vi mode target_bvid w =
     (let cover_path = cover_file cfg video_path;
          w1 = log_event (EvCover video_path cover_path) w
      in if mode = ModeNew then
           (case upload_video e video_path
                   (if cover_exists e (trace w1) cover_path then Some cover_path else None) (trace w1) of
              (b, tr) \<Rightarrow> (b, w1\<lparr>trace := tr\<rparr>))
         else
           (case append_video e video_path target_bvid (title vi) (trace w1) of
              (ok, tr) \<Rightarrow> (if ok then target_bvid else None, w1\<lparr>trace := tr\<rparr>)))"

text \<open>
  The loop of \<open>_upload_split_video\<close> over \<open>enumerate(split_files, 1)\<close>: \<open>i\<close> is the number
  of the segment, \<open>result_bvid\<close> the id that later segments are appended to. The first
  failed publish returns \<open>None\<close> at once.
\<close>

fun upload_segments ::
  "config \<Rightarrow> env \<Rightarrow> video_info \<Rightarrow> upload_mode \<Rightarrow> nat \<Rightarrow> string list \<Rightarrow> string option \<Rightarrow> event list
     \<Rightarrow> string option \<times> event list" where
  "upload_segments cfg e vi mode i [] result_bvid tr = (result_bvid, tr)"
| "upload_segments cfg e vi mode i (split_file # rest) result_bvid tr =
     (let part_title = title vi @ '' - P'' @ str_nat i;
          cover_path = cover_file cfg split_file;
          tr0 = (if i = 1 then tr @ [EvCover split_file cover_path] else tr)
      in if i = 1 \<and> mode = ModeNew then
           (case upload_video e split_file
                   (if cover_exists e tr0 cover_path then Some cover_path else None) tr0 of
              (b, tr1) \<Rightarrow>
                if \<not> truthy b then (None, tr1)
                else upload_segments cfg e vi mode (i + 1) rest b tr1)
         else
           (case append_video e split_file result_bvid part_title tr0 of
              (ok, tr1) \<Rightarrow>
                if \<not> ok then (None, tr1)
                else upload_segments cfg e vi mode (i + 1) rest result_bvid tr1))"

definition split_dir :: "config \<Rightarrow> string \<Rightarrow> string" where
  "split_dir cfg video_path = path_join (path_join (local_cache_path cfg) ''splits'') (path_stem video_path)"

definition upload_split_video ::
  "config \<Rightarrow> env \<Rightarrow> string \<Rightarrow> video_info \<Rightarrow> rat \<Rightarrow> upload_mode \<Rightarrow> string option \<Rightarrow> world
     \<Rightarrow> string option \<times> world" where
  "upload_split_video cfg e video_path vi size_gb mode target_bvid w =
     (case split_video cfg e video_path (split_dir cfg video_path) size_gb (trace w) of
        (split_files, tr1) \<Rightarrow>
          if split_files = [] then (None, w\<lparr>trace := tr1\<rparr>)
          else (case upload_segments cfg e vi mode 1 split_files target_bvid tr1 of
                  (r, tr2) \<Rightarrow> (r, w\<lparr>trace := tr2\<rparr>)))"

subsection \<open>One task with its retries (_upload_single_video)\<close>

definition msg_no_video :: string where
  "msg_no_video = [CHR 0xE6, CHR 0x97, CHR 0xA0, CHR 0xE6, CHR 0xB3, CHR 0x95, CHR 0xE8, CHR 0x8E,
     CHR 0xB7, CHR 0xE5, CHR 0x8F, CHR 0x96, CHR 0xE8, CHR 0xA7, CHR 0x86, CHR 0xE9, CHR 0xA2,
     CHR 0x91, CHR 0xE6, CHR 0x96, CHR 0x87, CHR 0xE4, CHR 0xBB, CHR 0xB6]"

definition msg_upload_failed :: string where
  "msg_upload_failed = [CHR 0xE4, CHR 0xB8, CHR 0x8A, CHR 0xE4, CHR 0xBC, CHR 0xA0, CHR 0xE5,
     CHR 0xA4, CHR 0xB1, CHR 0xE8, CHR 0xB4, CHR 0xA5]"

definition size_gb_of :: "int \<Rightarrow> rat" where
  "size_gb_of sz = of_int sz / of_int gib"

definition needs_split_of :: "config \<Rightarrow> int \<Rightarrow> bool" where
  "needs_split_of cfg sz \<longleftrightarrow> size_gb_of sz > max_file_size_gb cfg"

text \<open>
  The body of the \<open>try\<close> of one attempt: \<open>None\<close> when the success was recorded (the
  function returns \<open>True\<close>), \<open>Some msg\<close> when an exception with that message was raised.
\<close>

definition attempt ::
  "config \<Rightarrow> env \<Rightarrow> video_data \<Rightarrow> upload_mode \<Rightarrow> string option \<Rightarrow> world \<Rightarrow> string option \<times> world" where
  "attempt cfg e vd mode target_bvid w =
     (let needs_split = needs_split_of cfg (vsize vd)
      in case get_video_path cfg e (remote_path vd) (filename vd) (vsize vd) needs_split w of
           (None, w1) \<Rightarrow> (Some msg_no_video, w1)
         | (Some video_path, w1) \<Rightarrow>
             (case (if needs_split
                    then upload_split_video cfg e video_path (info vd) (size_gb_of (vsize vd)) mode target_bvid w1
                    else upload_normal_video cfg e video_path (info vd) mode target_bvid w1) of
                (r, w2) \<Rightarrow>
                  let w3 = log_event (EvCleanup video_path needs_split) w2
                  in if truthy r then
                       (None,
                        w3\<lparr>hist := add_success (write_result e (trace w3)) (clock e (trace w3))
                               (remote_path vd) (vsize vd) (if mode = ModeNew then r else target_bvid)
                               needs_split None (hist w3)\<rparr>)
                     else (Some msg_upload_failed, w3)))"

fun retry_loop ::
  "config \<Rightarrow> env \<Rightarrow> video_data \<Rightarrow> upload_mode \<Rightarrow> string option \<Rightarrow> nat list \<Rightarrow> world \<Rightarrow> bool \<times> world" where
  "retry_loop cfg e vd mode target_bvid [] w = (False, w)"
| "retry_loop cfg e vd mode target_bvid (a # rest) w =
     (case attempt cfg e vd mode target_bvid w of
        (None, w1) \<Rightarrow> (True, w1)
      | (Some msg, w1) \<Rightarrow>
          if int a = retry_times cfg - 1 then
            (False,
             w1\<lparr>hist := add_failed (write_result e (trace w1)) (clock e (trace w1))
                    (Some (remote_path vd)) msg (hist w1),
                stats_failed := stats_failed w1 + 1\<rparr>)
          else retry_loop cfg e vd mode target_bvid rest (log_event EvSleep w1))"

definition upload_single_video ::
  "config \<Rightarrow> env \<Rightarrow> video_data \<Rightarrow> upload_mode \<Rightarrow> string option \<Rightarrow> world \<Rightarrow> bool \<times> world" where
  "upload_single_video cfg e vd mode target_bvid w =
     retry_loop cfg e vd mode target_bvid [0..<nat (retry_times cfg)] w"

subsection \<open>The batch (_batch_upload_videos) and the candidate list\<close>

fun batch_loop ::
  "config \<Rightarrow> env \<Rightarrow> upload_mode \<Rightarrow> string option \<Rightarrow> nat \<Rightarrow> nat \<Rightarrow> video_data list \<Rightarrow> world \<Rightarrow> world" where
  "batch_loop cfg e mode target_bvid total_n current [] w = w"
| "batch_loop cfg e mode target_bvid total_n current (vd # rest) w =
     (let w1 = log_event (EvProgress (current + 1) total_n (stats_success w) (stats_failed w) (stats_skipped w)) w
      in case upload_single_video cfg e vd mode target_bvid w1 of
           (success, w2) \<Rightarrow>
             batch_loop cfg e mode target_bvid total_n (current + 1) rest
               (if success then w2\<lparr>stats_success := stats_success w2 + 1\<rparr> else w2))"

definition batch_upload_videos ::
  "config \<Rightarrow> env \<Rightarrow> video_data list \<Rightarrow> upload_mode \<Rightarrow> string option \<Rightarrow> world \<Rightarrow> world" where
  "batch_upload_videos cfg e videos mode target_bvid w =
     batch_loop cfg e mode target_bvid (length videos) 0 videos w"

text \<open>
  The last loop of \<open>_get_videos_to_upload\<close>, which builds the batch from the selected
  file names: \<open>file_sizes.get(video, 0)\<close>, and a pair already in the history is left out.
  \<open>parse\<close> stands for the constructor \<open>VideoInfo(video, room_id)\<close>.
\<close>

fun build_upload_list ::
  "upload_history \<Rightarrow> (string \<Rightarrow> video_info) \<Rightarrow> string \<Rightarrow> string \<Rightarrow> (string \<rightharpoonup> int) \<Rightarrow> string list
     \<Rightarrow> video_data list" where
  "build_upload_list h parse folder_name streamer file_sizes [] = []"
| "build_upload_list h parse folder_name streamer file_sizes (video # rest) =
     (let rpath = folder_name @ ''/'' @ video;
          sz = (case file_sizes video of None \<Rightarrow> 0 | Some n \<Rightarrow> n)
      in if is_uploaded h rpath sz
         then build_upload_list h parse folder_name streamer file_sizes rest
         else \<lparr>filename = video, remote_path = rpath, vsize = sz, info = parse video,
               streamer_name = streamer\<rparr>
              # build_upload_list h parse folder_name streamer file_sizes rest)"

section \<open>Notions used to state the properties\<close>

text \<open>An entry survives revalidation when its id is truthy and the predicate accepts it.\<close>

definition record_valid :: "(string \<Rightarrow> bool) \<Rightarrow> success_record \<Rightarrow> bool" where
  "record_valid validate r = (case bvid r of Val v \<Rightarrow> v \<noteq> [] \<and> validate v | _ \<Rightarrow> False)"

text \<open>The failure entry that revalidation writes for the \<open>i\<close>-th removed record.\<close>

definition prune_entry :: "(nat \<Rightarrow> string) \<Rightarrow> nat \<times> success_record \<Rightarrow> failed_record" where
  "prune_entry clk ir =
     \<lparr>failed_path = prune_path (snd ir), error_msg = prune_msg (prune_bvid_text (snd ir)),
      failed_time = clk (fst ir)\<rparr>"

definition fingerprint :: "success_record \<Rightarrow> string jfield \<times> int jfield" where
  "fingerprint r = (file_path r, file_size r)"

subsection \<open>Concrete inputs\<close>

definition ex_record :: "string \<Rightarrow> int \<Rightarrow> string \<Rightarrow> success_record" where
  "ex_record p s b =
     \<lparr>file_path = Val p, file_size = Val s, bvid = Val b, upload_time = ''2024-01-15 14:00:00'',
      is_split = False, parts = []\<rparr>"

definition ex_ledger :: upload_history where
  "ex_ledger = init_history
     (Content [ex_record ''a/1.flv'' 1 ''BV1'', ex_record ''a/2.flv'' 2 ''BV2'',
               ex_record ''a/3.flv'' 3 ''BV3'', ex_record ''a/4.flv'' 4 ''BV4'',
               ex_record ''a/5.flv'' 5 ''BV5'']) Absent"

definition ex_exists :: "string \<Rightarrow> bool" where
  "ex_exists b \<longleftrightarrow> b \<noteq> ''BV2'' \<and> b \<noteq> ''BV4''"

definition ex_clock :: "nat \<Rightarrow> string" where
  "ex_clock i = ''2024-01-16 09:00:00''"

definition ex_writes :: "nat \<Rightarrow> write_outcome" where
  "ex_writes i = WriteOk"

definition empty_ledger :: upload_history where
  "empty_ledger = init_history Absent Absent"

definition ex_info :: "string \<Rightarrow> video_info" where
  "ex_info v = \<lparr>room_id = ''1001'', title = v\<rparr>"

definition ex_config :: config where
  "ex_config =
     \<lparr>max_file_size_gb = 15, split_margin_gb = 29 / 2, retry_times = 3, min_free_space_gb = 5,
      local_cache_path = ''/tmp/cache'', mount_point = ''/mnt/remote''\<rparr>"

text \<open>An environment in which every tool succeeds and the upload prints an id.\<close>

definition ex_env :: env where
  "ex_env =
     \<lparr>mount_result = (\<lambda>tr. True),
      mounted_file_exists = (\<lambda>tr p. True),
      disk_free = (\<lambda>tr. 100 * gib),
      download_result = (\<lambda>tr r l. Exited 0 []),
      video_duration = (\<lambda>tr p. Some 3600),
      cut_result = (\<lambda>tr p s d out. CutDone True),
      cover_exists = (\<lambda>tr p. True),
      upload_result = (\<lambda>tr p c. Exited 0 ''bvid:BV1xx411c7mD''),
      append_result = (\<lambda>tr p b t. Exited 0 []),
      write_result = (\<lambda>tr. WriteOk),
      clock = (\<lambda>tr. ''2024-01-15 14:00:00'')\<rparr>"

definition ex_video :: "int \<Rightarrow> video_data" where
  "ex_video sz =
     \<lparr>filename = ''rec.flv'', remote_path = ''1001-name/rec.flv'', vsize = sz,
      info = ex_info ''Title'', streamer_name = ''name''\<rparr>"

definition ex_world :: world where
  "ex_world =
     \<lparr>trace = [], is_mounted = False, hist = empty_ledger,
      stats_success = 0, stats_failed = 0, stats_skipped = 0\<rparr>"

text \<open>A batch in which the same file, with the same size, occurs twice.\<close>

definition ex_twice_world :: world where
  "ex_twice_world =
     batch_upload_videos ex_config ex_env [ex_video (5 * gib), ex_video (5 * gib)] ModeNew None ex_world"

subsection \<open>Reading the trace of the split planner\<close>

text \<open>The cuts that were started: index, start, length and output file, in order.\<close>

definition cut_calls :: "event list \<Rightarrow> (nat \<times> rat \<times> rat \<times> string) list" where
  "cut_calls tr =
     concat (map (\<lambda>ev. case ev of EvCut i vp s d out r \<Rightarrow> [(i, s, d, out)] | _ \<Rightarrow> []) tr)"

text \<open>The output files that were found on disk after their cut.\<close>

definition cut_outputs :: "event list \<Rightarrow> string list" where
  "cut_outputs tr =
     concat (map (\<lambda>ev. case ev of EvCut i vp s d out r \<Rightarrow> (if r = CutDone True then [out] else [])
                              | _ \<Rightarrow> []) tr)"

definition cut_raised :: "event list \<Rightarrow> bool" where
  "cut_raised tr =
     list_ex (\<lambda>ev. case ev of EvCut i vp s d out r \<Rightarrow> r = CutRaised | _ \<Rightarrow> False) tr"

text \<open>The indices whose output file was found on disk after the cut.\<close>

definition cut_found :: "event list \<Rightarrow> nat list" where
  "cut_found tr =
     concat (map (\<lambda>ev. case ev of EvCut i vp s d out r \<Rightarrow> (if r = CutDone True then [i] else [])
                              | _ \<Rightarrow> []) tr)"

text \<open>The plan: segment \<open>i\<close> starts at \<open>i * (d / n)\<close> and lasts \<open>d / n\<close>.\<close>

definition cut_plan :: "string \<Rightarrow> string \<Rightarrow> rat \<Rightarrow> int \<Rightarrow> (nat \<times> rat \<times> rat \<times> string) list" where
  "cut_plan video_path output_dir d n =
     map (\<lambda>i. (i, of_nat i * (d / of_int n), d / of_int n, part_file output_dir video_path i))
       [0..<nat n]"

text \<open>The events that a call added to the trace \<open>tr\<close> it started from.\<close>

definition new_events :: "event list \<Rightarrow> event list \<Rightarrow> event list" where
  "new_events tr tr' = drop (length tr) tr'"

text \<open>An environment whose second cut leaves no file.\<close>

definition ex_env_gap :: env where
  "ex_env_gap = ex_env\<lparr>cut_result := (\<lambda>tr p s d out. CutDone (s \<noteq> 1200))\<rparr>"

text \<open>An environment whose second cut of three raises (the child process cannot be read).\<close>

definition ex_env_cut_raises :: env where
  "ex_env_cut_raises =
     ex_env\<lparr>cut_result := (\<lambda>tr p s d out. if s = 1200 then CutRaised else CutDone True)\<rparr>"

definition ex_env_no_duration :: env where
  "ex_env_no_duration = ex_env\<lparr>video_duration := (\<lambda>tr p. None)\<rparr>"

subsection \<open>Reading the trace of the controller\<close>

definition download_calls :: "event list \<Rightarrow> (string \<times> string) list" where
  "download_calls tr =
     concat (map (\<lambda>ev. case ev of EvDownload r l ok \<Rightarrow> [(r, l)] | _ \<Rightarrow> []) tr)"

text \<open>The state in which \<open>_get_video_path\<close> looks for the file under the mount point.\<close>

definition after_mount :: "env \<Rightarrow> bool \<Rightarrow> world \<Rightarrow> world" where
  "after_mount e needs_split w = (if \<not> needs_split \<and> \<not> is_mounted w then snd (mount e w) else w)"

text \<open>A local copy is needed: the task is split, or the mount gives no path to the file.\<close>

definition local_copy_needed :: "config \<Rightarrow> env \<Rightarrow> string \<Rightarrow> string \<Rightarrow> bool \<Rightarrow> world \<Rightarrow> bool" where
  "local_copy_needed cfg e rpath fname needs_split w \<longleftrightarrow>
     needs_split \<or>
     get_mounted_path cfg e (takeWhile (\<lambda>c. c \<noteq> CHR ''/'') rpath) fname (after_mount e needs_split w) = None"

text \<open>A disk with 10 GB free and no usable mount.\<close>

definition ex_env_small_disk :: env where
  "ex_env_small_disk = ex_env\<lparr>mount_result := (\<lambda>tr. False), disk_free := (\<lambda>tr. 10 * gib)\<rparr>"

text \<open>The publish calls of a trace: creations (\<open>upload_video\<close>) and appends (\<open>append_video\<close>).\<close>

definition is_publish :: "event \<Rightarrow> bool" where
  "is_publish ev = (case ev of EvUpload p c r \<Rightarrow> True | EvAppend p b t r \<Rightarrow> True | _ \<Rightarrow> False)"

definition publish_calls :: "event list \<Rightarrow> event list" where
  "publish_calls tr = filter is_publish tr"

definition publish_path :: "event \<Rightarrow> string" where
  "publish_path ev = (case ev of EvUpload p c r \<Rightarrow> p | EvAppend p b t r \<Rightarrow> p | _ \<Rightarrow> [])"

text \<open>The call succeeded: a creation returned an id, an append returned \<open>True\<close>.\<close>

definition publish_ok :: "event \<Rightarrow> bool" where
  "publish_ok ev =
     (case ev of EvUpload p c r \<Rightarrow> truthy (parse_upload r) | EvAppend p b t r \<Rightarrow> proc_ok r | _ \<Rightarrow> False)"

text \<open>The id a creation yielded, and the id an append was directed to.\<close>

definition upload_id :: "event \<Rightarrow> string option" where
  "upload_id ev = (case ev of EvUpload p c r \<Rightarrow> parse_upload r | _ \<Rightarrow> None)"

definition append_target :: "event \<Rightarrow> string option option" where
  "append_target ev = (case ev of EvAppend p b t r \<Rightarrow> Some b | _ \<Rightarrow> None)"

text \<open>No call follows a failed call.\<close>

fun run_ok :: "event list \<Rightarrow> bool" where
  "run_ok [] = True"
| "run_ok (ev # evs) = (if publish_ok ev then run_ok evs else evs = [])"

text \<open>The cover extraction that precedes the publish of segment 1.\<close>

definition cover_events :: "config \<Rightarrow> nat \<Rightarrow> string \<Rightarrow> event list" where
  "cover_events cfg i split_file = (if i = 1 then [EvCover split_file (cover_file cfg split_file)] else [])"

text \<open>An environment in which every append after the first publish fails.\<close>

definition ex_env_append_fails :: env where
  "ex_env_append_fails = ex_env\<lparr>append_result := (\<lambda>tr p b t. Exited 1 ''error'')\<rparr>"

text \<open>The files that the planner returns for a split upload started in state \<open>w\<close>.\<close>

definition planned_segments :: "config \<Rightarrow> env \<Rightarrow> string \<Rightarrow> rat \<Rightarrow> world \<Rightarrow> string list" where
  "planned_segments cfg e video_path size_gb w =
     fst (split_video cfg e video_path (split_dir cfg video_path) size_gb (trace w))"

text \<open>The publish calls made by one run of \<open>_upload_split_video\<close> started in state \<open>w\<close>.\<close>

definition split_publishes ::
  "config \<Rightarrow> env \<Rightarrow> string \<Rightarrow> video_info \<Rightarrow> rat \<Rightarrow> upload_mode \<Rightarrow> string option \<Rightarrow> world
     \<Rightarrow> event list" where
  "split_publishes cfg e video_path vi size_gb mode target_bvid w =
     publish_calls (new_events (trace w)
       (trace (snd (upload_split_video cfg e video_path vi size_gb mode target_bvid w))))"

text \<open>One run on a file of 40 GB (three segments) in which the second publish fails.\<close>

definition ex_failed_run :: "event list" where
  "ex_failed_run =
     split_publishes ex_config ex_env_append_fails ''/tmp/cache/downloads/rec.flv'' (ex_info ''Title'')
       40 ModeNew None ex_world"

text \<open>One run on the same file, appended to an existing video, every call succeeding.\<close>

definition ex_append_run :: "event list" where
  "ex_append_run =
     split_publishes ex_config ex_env ''/tmp/cache/downloads/rec.flv'' (ex_info ''Title'')
       40 ModeAppend (Some ''BV1xx411c7mD'') ex_world"

text \<open>An environment in which the first append ever made fails and every later one succeeds.\<close>

definition ex_env_append_flaky :: env where
  "ex_env_append_flaky =
     ex_env\<lparr>append_result :=
       (\<lambda>tr p b t. if list_ex (\<lambda>ev. append_target ev \<noteq> None) tr then Exited 0 []
                   else Exited 1 ''error'')\<rparr>"

text \<open>The task for a file of 40 GB in that environment, with three attempts.\<close>

definition ex_flaky_task :: "bool \<times> world" where
  "ex_flaky_task =
     upload_single_video ex_config ex_env_append_flaky (ex_video (40 * gib)) ModeNew None ex_world"

text \<open>A creation whose process ended with exit code 0.\<close>

definition upload_exit_zero :: "event \<Rightarrow> bool" where
  "upload_exit_zero ev =
     (case ev of EvUpload p c r \<Rightarrow> (case r of Exited rc out \<Rightarrow> rc = 0 | Raised \<Rightarrow> False) | _ \<Rightarrow> False)"

text \<open>An environment in which every publish call fails with a non-zero exit code.\<close>

definition ex_env_publish_fails :: env where
  "ex_env_publish_fails =
     ex_env\<lparr>upload_result := (\<lambda>tr p c. Exited 1 ''error''),
            append_result := (\<lambda>tr p b t. Exited 1 ''error'')\<rparr>"

text \<open>An environment in which the upload command exits with 0 and prints no id.\<close>

definition ex_env_no_id :: env where
  "ex_env_no_id = ex_env\<lparr>upload_result := (\<lambda>tr p c. Exited 0 ''upload finished'')\<rparr>"

text \<open>A file of 29 GB, split in two and published with success.\<close>

definition ex_split_world :: world where
  "ex_split_world = snd (upload_single_video ex_config ex_env (ex_video (29 * gib)) ModeNew None ex_world)"

section \<open>Properties of the upload history\<close>

lemma prune_scan_eq:
  "prune_scan validate rs c va iv =
     (c + length rs, va @ filter (record_valid validate) rs,
      iv @ filter (\<lambda>r. \<not> record_valid validate r) rs)"
  by (induction rs arbitrary: c va iv) (auto simp: record_valid_def split: jfield.splits)

lemma prune_report_history [simp]:
  "history (prune_report wr clk i rs h) = history h"
  by (induction rs arbitrary: i h) (auto simp: add_failed_def save_failed_def)

lemma prune_report_history_file [simp]:
  "history_file (prune_report wr clk i rs h) = history_file h"
  by (induction rs arbitrary: i h) (auto simp: add_failed_def save_failed_def)

lemma prune_report_failed:
  "failed (prune_report wr clk i rs h) = failed h @ map (prune_entry clk) (enumerate i rs)"
  by (induction rs arbitrary: i h) (auto simp: add_failed_def save_failed_def prune_entry_def)

lemma is_uploaded_loop_iff:
  "is_uploaded_loop rs p s \<longleftrightarrow> (Val p, Val s) \<in> set (map fingerprint rs)"
  by (induction rs) (auto simp: record_matches_def fingerprint_def)

lemma build_upload_list_fresh:
  "vd \<in> set (build_upload_list h parse folder streamer sizes sel) \<Longrightarrow>
     \<not> is_uploaded h (remote_path vd) (vsize vd)"
  by (induction sel) (auto simp: Let_def split: if_splits)

lemma ex_ledger_history:
  "history ex_ledger =
     [ex_record ''a/1.flv'' 1 ''BV1'', ex_record ''a/2.flv'' 2 ''BV2'',
      ex_record ''a/3.flv'' 3 ''BV3'', ex_record ''a/4.flv'' 4 ''BV4'',
      ex_record ''a/5.flv'' 5 ''BV5'']"
  by (simp add: ex_ledger_def init_history_def load_file_def)

lemma ex_record_valid:
  "record_valid ex_exists (ex_record p s b) \<longleftrightarrow> b \<noteq> [] \<and> ex_exists b"
  by (simp add: record_valid_def ex_record_def)

text \<open>
  C5 (revalidation). \<open>prune_invalid_records\<close> counts every success entry, keeps exactly
  the entries whose id is truthy and accepted by the injected predicate, returns the
  number of entries checked and the number removed, and appends one failure entry for
  each removed entry, in order.
\<close>

theorem revalidate_semantics:
  "fst (prune_invalid_records validate wh wr clk h) =
     (length (history h), length (filter (\<lambda>r. \<not> record_valid validate r) (history h)))
   \<and> history (snd (prune_invalid_records validate wh wr clk h)) =
       filter (record_valid validate) (history h)
   \<and> failed (snd (prune_invalid_records validate wh wr clk h)) =
       failed h @ map (prune_entry clk)
         (enumerate 0 (filter (\<lambda>r. \<not> record_valid validate r) (history h)))"
  by (auto simp: prune_invalid_records_def prune_scan_eq prune_report_failed save_history_def
      filter_empty_conv filter_id_conv)

text \<open>A ledger of five entries, two of which no longer exist: (5, 2), three left, two failures.\<close>

theorem revalidate_semantics_witness:
  "fst (prune_invalid_records ex_exists WriteOk ex_writes ex_clock ex_ledger) = (5, 2)
   \<and> length (history (snd (prune_invalid_records ex_exists WriteOk ex_writes ex_clock ex_ledger))) = 3
   \<and> length (failed (snd (prune_invalid_records ex_exists WriteOk ex_writes ex_clock ex_ledger)))
       = length (failed ex_ledger) + 2"
  using revalidate_semantics [of ex_exists WriteOk ex_writes ex_clock ex_ledger]
  by (simp add: ex_ledger_history ex_record_valid ex_exists_def)

text \<open>
  C4 (persistence), as the code has it. A mutation of the success log changes the list
  in memory and then makes one attempt to overwrite the file with the whole list. When
  the write succeeds the file holds exactly the new list (after revalidation: the valid
  subset). When it fails the error is dropped: the list in memory keeps its new value
  and the file is untouched (\<open>open\<close> failed) or cut short (the dump failed).
  Revalidation that finds no invalid entry changes and writes nothing.
\<close>

theorem save_after_mutation:
  "history_file (add_success w now p s b sp ps h) =
     write_file w (history (add_success w now p s b sp ps h)) (history_file h)
   \<and> (filter (\<lambda>r. \<not> record_valid validate r) (history h) \<noteq> [] \<longrightarrow>
         history (snd (prune_invalid_records validate wh wr clk h)) =
           filter (record_valid validate) (history h)
         \<and> history_file (snd (prune_invalid_records validate wh wr clk h)) =
           write_file wh (filter (record_valid validate) (history h)) (history_file h))
   \<and> (filter (\<lambda>r. \<not> record_valid validate r) (history h) = [] \<longrightarrow>
         snd (prune_invalid_records validate wh wr clk h) = h)
   \<and> write_file WriteOk rs f = Content rs
   \<and> write_file OpenFailed rs f = f
   \<and> write_file DumpFailed rs f = Corrupt"
  by (simp add: add_success_def save_history_def prune_invalid_records_def prune_scan_eq
      write_file_def)

theorem save_after_mutation_witness:
  "filter (\<lambda>r. \<not> record_valid ex_exists r) (history ex_ledger) \<noteq> []
   \<and> length (history (snd (prune_invalid_records ex_exists WriteOk ex_writes ex_clock ex_ledger))) = 3
   \<and> history_file (snd (prune_invalid_records ex_exists WriteOk ex_writes ex_clock ex_ledger)) =
       Content (filter (record_valid ex_exists) (history ex_ledger))
   \<and> filter (\<lambda>r. \<not> record_valid (\<lambda>b. True) r) (history ex_ledger) = []
   \<and> snd (prune_invalid_records (\<lambda>b. True) WriteOk ex_writes ex_clock ex_ledger) = ex_ledger"
proof -
  have a: "filter (\<lambda>r. \<not> record_valid ex_exists r) (history ex_ledger) \<noteq> []"
    by (simp add: ex_ledger_history ex_record_valid ex_exists_def)
  have b: "filter (\<lambda>r. \<not> record_valid (\<lambda>b. True) r) (history ex_ledger) = []"
    by (simp add: ex_ledger_history record_valid_def ex_record_def)
  have c: "length (filter (record_valid ex_exists) (history ex_ledger)) = 3"
    by (simp add: ex_ledger_history ex_record_valid ex_exists_def)
  have d: "write_file WriteOk (filter (record_valid ex_exists) (history ex_ledger))
      (history_file ex_ledger) = Content (filter (record_valid ex_exists) (history ex_ledger))"
    by (simp add: write_file_def)
  from a c d b
    save_after_mutation [of WriteOk "[]" "[]" 0 None False None ex_ledger ex_exists WriteOk
      ex_writes ex_clock "[]" Absent]
    save_after_mutation [of WriteOk "[]" "[]" 0 None False None ex_ledger "\<lambda>b. True" WriteOk
      ex_writes ex_clock "[]" Absent]
  show ?thesis by presburger
qed

text \<open>
  The claim as written fails. With a dump that fails, revalidation has already shortened
  the list in memory, and the file holds neither the old log nor the valid subset; with
  an \<open>open\<close> that fails, the list in memory is shortened and the file still holds all
  five entries.
\<close>

theorem failed_save_counterexample:
  "length (history ex_ledger) = 5
   \<and> history_file ex_ledger = Content (history ex_ledger)
   \<and> length (history (snd (prune_invalid_records ex_exists DumpFailed ex_writes ex_clock ex_ledger))) = 3
   \<and> history_file (snd (prune_invalid_records ex_exists DumpFailed ex_writes ex_clock ex_ledger)) = Corrupt
   \<and> length (history (snd (prune_invalid_records ex_exists OpenFailed ex_writes ex_clock ex_ledger))) = 3
   \<and> history_file (snd (prune_invalid_records ex_exists OpenFailed ex_writes ex_clock ex_ledger)) =
       Content (history ex_ledger)"
  by code_simp

section \<open>Properties of the split planner\<close>

lemma cut_calls_append [simp]: "cut_calls (a @ b) = cut_calls a @ cut_calls b"
  by (simp add: cut_calls_def)

lemma cut_outputs_append [simp]: "cut_outputs (a @ b) = cut_outputs a @ cut_outputs b"
  by (simp add: cut_outputs_def)

lemma cut_raised_append [simp]: "cut_raised (a @ b) \<longleftrightarrow> cut_raised a \<or> cut_raised b"
  by (simp add: cut_raised_def)

lemma new_events_append [simp]: "new_events tr (tr @ evs) = evs"
  by (simp add: new_events_def)

lemma new_events_self [simp]: "new_events tr tr = []"
  by (simp add: new_events_def)

lemma cut_calls_simps [simp]:
  "cut_calls [] = []"
  "cut_calls (EvCut i vp s d out r # evs) = (i, s, d, out) # cut_calls evs"
  "cut_calls (EvDuration vp dd # evs) = cut_calls evs"
  by (simp_all add: cut_calls_def)

lemma cut_outputs_simps [simp]:
  "cut_outputs [] = []"
  "cut_outputs (EvCut i vp s d out r # evs) =
     (if r = CutDone True then out # cut_outputs evs else cut_outputs evs)"
  "cut_outputs (EvDuration vp dd # evs) = cut_outputs evs"
  by (simp_all add: cut_outputs_def)

lemma cut_raised_simps [simp]:
  "cut_raised [] = False"
  "cut_raised (EvCut i vp s d out r # evs) = (r = CutRaised \<or> cut_raised evs)"
  "cut_raised (EvDuration vp dd # evs) = cut_raised evs"
  by (simp_all add: cut_raised_def)

text \<open>
  The loop: the trace grows by one cut per index until a cut raises; without a raise
  every index is cut and the files found on disk are collected in order.
\<close>

lemma split_loop_trace:
  "split_loop e vp od pd idxs outs tr = (r, tr') \<Longrightarrow>
     \<exists>evs. tr' = tr @ evs
       \<and> (r = None \<longrightarrow> cut_raised evs)
       \<and> (\<forall>outs'. r = Some outs' \<longrightarrow>
             \<not> cut_raised evs
             \<and> cut_calls evs = map (\<lambda>i. (i, of_nat i * pd, pd, part_file od vp i)) idxs
             \<and> outs' = outs @ cut_outputs evs)"
proof (induction idxs arbitrary: outs tr)
  case Nil
  then show ?case by auto
next
  case (Cons i rest)
  let ?s = "of_nat i * pd"
  let ?out = "part_file od vp i"
  let ?r = "cut_result e tr vp ?s pd ?out"
  let ?ev = "EvCut i vp ?s pd ?out ?r"
  show ?case
  proof (cases ?r)
    case CutRaised
    with Cons.prems have "r = None" "tr' = tr @ [?ev]"
      by (auto simp: Let_def)
    with CutRaised show ?thesis
      by (intro exI [of _ "[?ev]"]) simp
  next
    case (CutDone ex)
    with Cons.prems
    have "split_loop e vp od pd rest (if ex then outs @ [?out] else outs) (tr @ [?ev]) = (r, tr')"
      by (simp add: Let_def)
    from Cons.IH [OF this] obtain evs where evs:
      "tr' = (tr @ [?ev]) @ evs"
      "r = None \<longrightarrow> cut_raised evs"
      "\<forall>outs'. r = Some outs' \<longrightarrow>
         \<not> cut_raised evs
         \<and> cut_calls evs = map (\<lambda>i. (i, of_nat i * pd, pd, part_file od vp i)) rest
         \<and> outs' = (if ex then outs @ [?out] else outs) @ cut_outputs evs"
      by blast
    with CutDone show ?thesis
      by (intro exI [of _ "[?ev] @ evs"]) auto
  qed
qed

text \<open>What \<open>split_video\<close> returns and adds to the trace, case by case.\<close>

lemma split_video_cases:
  assumes "split_video cfg e vp od sz tr = (files, tr')"
  shows "\<exists>evs. tr' = tr @ evs
     \<and> (cut_raised evs \<longrightarrow> files = [])
     \<and> (\<not> cut_raised evs \<longrightarrow> files = cut_outputs evs)
     \<and> ((split_margin_gb cfg = 0 \<or> video_duration e tr vp = None \<or> video_duration e tr vp = Some 0)
          \<longrightarrow> files = [] \<and> cut_calls evs = [])
     \<and> (\<forall>d. split_margin_gb cfg \<noteq> 0 \<and> video_duration e tr vp = Some d \<and> d \<noteq> 0 \<and> \<not> cut_raised evs
          \<longrightarrow> cut_calls evs = cut_plan vp od d (num_parts cfg sz))"
proof (cases "split_margin_gb cfg = 0")
  case True
  with assms show ?thesis
    by (intro exI [of _ "[]"]) (simp add: split_video_def)
next
  case margin: False
  let ?d = "video_duration e tr vp"
  let ?tr1 = "tr @ [EvDuration vp ?d]"
  show ?thesis
  proof (cases ?d)
    case None
    with assms margin show ?thesis
      by (intro exI [of _ "[EvDuration vp ?d]"]) (simp add: split_video_def Let_def)
  next
    case (Some d)
    show ?thesis
    proof (cases "d = 0 \<or> num_parts cfg sz = 0")
      case True
      with assms margin Some show ?thesis
        by (intro exI [of _ "[EvDuration vp ?d]"])
          (auto simp: split_video_def Let_def cut_plan_def split: if_splits)
    next
      case False
      let ?n = "num_parts cfg sz"
      obtain r tr2 where loop:
        "split_loop e vp od (d / of_int ?n) [0..<nat ?n] [] ?tr1 = (r, tr2)"
        by (cases "split_loop e vp od (d / of_int ?n) [0..<nat ?n] [] ?tr1") auto
      from split_loop_trace [OF loop] obtain evs where evs:
        "tr2 = ?tr1 @ evs"
        "r = None \<longrightarrow> cut_raised evs"
        "\<forall>outs'. r = Some outs' \<longrightarrow>
           \<not> cut_raised evs
           \<and> cut_calls evs = map (\<lambda>i. (i, of_nat i * (d / of_int ?n), d / of_int ?n, part_file od vp i))
                [0..<nat ?n]
           \<and> outs' = [] @ cut_outputs evs"
        by blast
      from assms margin Some False loop
      have res: "files = (case r of None \<Rightarrow> [] | Some fs \<Rightarrow> fs)" "tr' = tr2"
        by (auto simp: split_video_def Let_def split: option.splits)
      from res evs Some False margin show ?thesis
        by (intro exI [of _ "[EvDuration vp ?d] @ evs"]) (cases r; auto simp: cut_plan_def)
    qed
  qed
qed

lemma split_video_new_events:
  "(cut_raised (new_events tr (snd (split_video cfg e vp od sz tr))) \<longrightarrow>
      fst (split_video cfg e vp od sz tr) = [])
   \<and> (\<not> cut_raised (new_events tr (snd (split_video cfg e vp od sz tr))) \<longrightarrow>
      fst (split_video cfg e vp od sz tr) =
        cut_outputs (new_events tr (snd (split_video cfg e vp od sz tr))))
   \<and> ((split_margin_gb cfg = 0 \<or> video_duration e tr vp = None \<or> video_duration e tr vp = Some 0) \<longrightarrow>
      fst (split_video cfg e vp od sz tr) = []
      \<and> cut_calls (new_events tr (snd (split_video cfg e vp od sz tr))) = [])
   \<and> (\<forall>d. split_margin_gb cfg \<noteq> 0 \<and> video_duration e tr vp = Some d \<and> d \<noteq> 0
          \<and> \<not> cut_raised (new_events tr (snd (split_video cfg e vp od sz tr))) \<longrightarrow>
      cut_calls (new_events tr (snd (split_video cfg e vp od sz tr))) =
        cut_plan vp od d (num_parts cfg sz))"
proof -
  obtain files tr' where eq: "split_video cfg e vp od sz tr = (files, tr')"
    by (cases "split_video cfg e vp od sz tr") auto
  from split_video_cases [OF eq] obtain evs where
    "tr' = tr @ evs"
    "cut_raised evs \<longrightarrow> files = []"
    "\<not> cut_raised evs \<longrightarrow> files = cut_outputs evs"
    "(split_margin_gb cfg = 0 \<or> video_duration e tr vp = None \<or> video_duration e tr vp = Some 0)
          \<longrightarrow> files = [] \<and> cut_calls evs = []"
    "\<forall>d. split_margin_gb cfg \<noteq> 0 \<and> video_duration e tr vp = Some d \<and> d \<noteq> 0 \<and> \<not> cut_raised evs
          \<longrightarrow> cut_calls evs = cut_plan vp od d (num_parts cfg sz)"
    by blast
  with eq show ?thesis by simp
qed

lemma cut_outputs_by_index:
  "\<forall>c \<in> set (cut_calls evs). snd (snd (snd c)) = part_file od vp (fst c) \<Longrightarrow>
     cut_outputs evs = map (part_file od vp) (cut_found evs)"
proof (induction evs)
  case Nil
  then show ?case by (simp add: cut_found_def)
next
  case (Cons ev evs)
  then show ?case
    by (cases ev) (auto simp: cut_found_def cut_calls_def cut_outputs_def)
qed

lemma cut_plan_outputs:
  "\<forall>c \<in> set (cut_plan vp od d n). snd (snd (snd c)) = part_file od vp (fst c)"
  by (auto simp: cut_plan_def)

lemma cut_plan_indices: "map fst (cut_plan vp od d n) = [0..<nat n]"
  by (simp add: cut_plan_def comp_def)

text \<open>
  C9 (failure policy of the planner), as the code has it. When the duration cannot be
  determined (or is zero) the planner returns the empty list and cuts nothing.
  Otherwise, provided that no cut raises an exception, the loop visits every index in
  order, and the list returned holds exactly the output files that were found on disk,
  in index order: a segment whose file is missing is left out and the loop goes on. When
  a cut raises, the handler of \<open>split_video\<close> returns the empty list, whatever files
  were cut before.
\<close>

theorem split_failure_policy:
  "((video_duration e tr vp = None \<or> video_duration e tr vp = Some 0) \<longrightarrow>
      fst (split_video cfg e vp od sz tr) = []
      \<and> cut_calls (new_events tr (snd (split_video cfg e vp od sz tr))) = [])
   \<and> (\<forall>d. split_margin_gb cfg \<noteq> 0 \<and> video_duration e tr vp = Some d \<and> d \<noteq> 0
          \<and> \<not> cut_raised (new_events tr (snd (split_video cfg e vp od sz tr))) \<longrightarrow>
        map fst (cut_calls (new_events tr (snd (split_video cfg e vp od sz tr)))) =
          [0..<nat (num_parts cfg sz)]
        \<and> fst (split_video cfg e vp od sz tr) =
          map (part_file od vp) (cut_found (new_events tr (snd (split_video cfg e vp od sz tr)))))
   \<and> (cut_raised (new_events tr (snd (split_video cfg e vp od sz tr))) \<longrightarrow>
        fst (split_video cfg e vp od sz tr) = [])"
proof -
  let ?new = "new_events tr (snd (split_video cfg e vp od sz tr))"
  note facts = split_video_new_events [of tr cfg e vp od sz]
  have c: "cut_raised ?new \<longrightarrow> fst (split_video cfg e vp od sz tr) = []"
    using facts by blast
  have a: "(video_duration e tr vp = None \<or> video_duration e tr vp = Some 0) \<longrightarrow>
      fst (split_video cfg e vp od sz tr) = [] \<and> cut_calls ?new = []"
    using facts by blast
  have b: "map fst (cut_calls ?new) = [0..<nat (num_parts cfg sz)]
      \<and> fst (split_video cfg e vp od sz tr) = map (part_file od vp) (cut_found ?new)"
    if h: "split_margin_gb cfg \<noteq> 0" "video_duration e tr vp = Some d" "d \<noteq> 0" "\<not> cut_raised ?new"
    for d
  proof -
    from facts h have calls: "cut_calls ?new = cut_plan vp od d (num_parts cfg sz)"
      by blast
    from facts h have files: "fst (split_video cfg e vp od sz tr) = cut_outputs ?new"
      by blast
    from calls have "cut_outputs ?new = map (part_file od vp) (cut_found ?new)"
      by (intro cut_outputs_by_index) (simp add: cut_plan_outputs)
    with calls files show ?thesis
      by (simp add: cut_plan_indices)
  qed
  from a b c show ?thesis by blast
qed

text \<open>
  A 40 GB file of one hour is cut in three; the second output is missing, the first and
  the third are returned. Without a duration nothing is returned. When the second cut
  raises, nothing is returned either.
\<close>

theorem split_failure_policy_witness:
  "split_margin_gb ex_config \<noteq> 0
   \<and> video_duration ex_env_gap [] ''/tmp/cache/downloads/rec.flv'' = Some 3600
   \<and> \<not> cut_raised (new_events []
         (snd (split_video ex_config ex_env_gap ''/tmp/cache/downloads/rec.flv'' ''/tmp/cache/splits/rec''
            40 [])))
   \<and> map fst (cut_calls (new_events []
         (snd (split_video ex_config ex_env_gap ''/tmp/cache/downloads/rec.flv'' ''/tmp/cache/splits/rec''
            40 [])))) = [0, 1, 2]
   \<and> fst (split_video ex_config ex_env_gap ''/tmp/cache/downloads/rec.flv'' ''/tmp/cache/splits/rec'' 40 [])
       = [''/tmp/cache/splits/rec/rec_part1.flv'', ''/tmp/cache/splits/rec/rec_part3.flv'']
   \<and> video_duration ex_env_no_duration [] ''/tmp/cache/downloads/rec.flv'' = None
   \<and> fst (split_video ex_config ex_env_no_duration ''/tmp/cache/downloads/rec.flv''
         ''/tmp/cache/splits/rec'' 40 []) = []
   \<and> cut_raised (new_events []
         (snd (split_video ex_config ex_env_cut_raises ''/tmp/cache/downloads/rec.flv''
            ''/tmp/cache/splits/rec'' 40 [])))
   \<and> fst (split_video ex_config ex_env_cut_raises ''/tmp/cache/downloads/rec.flv''
         ''/tmp/cache/splits/rec'' 40 []) = []"
proof -
  have r: "cut_raised (new_events []
         (snd (split_video ex_config ex_env_cut_raises ''/tmp/cache/downloads/rec.flv''
            ''/tmp/cache/splits/rec'' 40 [])))"
    by code_simp
  from r
    split_failure_policy [of ex_env_cut_raises "[]" "''/tmp/cache/downloads/rec.flv''" ex_config
      "''/tmp/cache/splits/rec''" 40]
  have s: "fst (split_video ex_config ex_env_cut_raises ''/tmp/cache/downloads/rec.flv''
         ''/tmp/cache/splits/rec'' 40 []) = []"
    by blast
  have a: "split_margin_gb ex_config \<noteq> 0"
    by (simp add: ex_config_def)
  have b: "video_duration ex_env_gap [] ''/tmp/cache/downloads/rec.flv'' = Some 3600"
    "(3600 :: rat) \<noteq> 0"
    by (simp_all add: ex_env_gap_def ex_env_def)
  have c: "\<not> cut_raised (new_events []
         (snd (split_video ex_config ex_env_gap ''/tmp/cache/downloads/rec.flv'' ''/tmp/cache/splits/rec''
            40 [])))"
    by code_simp
  have d: "[0..<nat (num_parts ex_config 40)] = [0, 1, 2]"
    by code_simp
  have e: "map (part_file ''/tmp/cache/splits/rec'' ''/tmp/cache/downloads/rec.flv'')
      (cut_found (new_events []
         (snd (split_video ex_config ex_env_gap ''/tmp/cache/downloads/rec.flv'' ''/tmp/cache/splits/rec''
            40 [])))) = [''/tmp/cache/splits/rec/rec_part1.flv'', ''/tmp/cache/splits/rec/rec_part3.flv'']"
    by code_simp
  have f: "video_duration ex_env_no_duration [] ''/tmp/cache/downloads/rec.flv'' = None"
    by (simp add: ex_env_no_duration_def)
  from a b c d e
    split_failure_policy [of ex_env_gap "[]" "''/tmp/cache/downloads/rec.flv''" ex_config
      "''/tmp/cache/splits/rec''" 40]
  have g: "map fst (cut_calls (new_events []
         (snd (split_video ex_config ex_env_gap ''/tmp/cache/downloads/rec.flv'' ''/tmp/cache/splits/rec''
            40 [])))) = [0, 1, 2]
   \<and> fst (split_video ex_config ex_env_gap ''/tmp/cache/downloads/rec.flv'' ''/tmp/cache/splits/rec'' 40 [])
       = [''/tmp/cache/splits/rec/rec_part1.flv'', ''/tmp/cache/splits/rec/rec_part3.flv'']"
    by metis
  from f
    split_failure_policy [of ex_env_no_duration "[]" "''/tmp/cache/downloads/rec.flv''" ex_config
      "''/tmp/cache/splits/rec''" 40]
  have h: "fst (split_video ex_config ex_env_no_duration ''/tmp/cache/downloads/rec.flv''
         ''/tmp/cache/splits/rec'' 40 []) = []"
    by blast
  from a b(1) c g f h r s show ?thesis by blast
qed

text \<open>
  The claim as written fails when a cut raises: the duration is known, the file of the
  first segment is on disk, the loop stops at the second of three indices, and the
  planner returns the empty list.
\<close>

theorem split_raise_counterexample:
  "video_duration ex_env_cut_raises [] ''/tmp/cache/downloads/rec.flv'' = Some 3600
   \<and> num_parts ex_config 40 = 3
   \<and> map fst (cut_calls (new_events []
         (snd (split_video ex_config ex_env_cut_raises ''/tmp/cache/downloads/rec.flv''
            ''/tmp/cache/splits/rec'' 40 [])))) = [0, 1]
   \<and> cut_found (new_events []
         (snd (split_video ex_config ex_env_cut_raises ''/tmp/cache/downloads/rec.flv''
            ''/tmp/cache/splits/rec'' 40 []))) = [0]
   \<and> fst (split_video ex_config ex_env_cut_raises ''/tmp/cache/downloads/rec.flv''
         ''/tmp/cache/splits/rec'' 40 []) = []"
  by code_simp

text \<open>
  C7 (arithmetic of the split plan). The part count is the ceiling of the size in GB
  over the configured part size; when the duration \<open>d\<close> is known and no cut raises, the
  cuts made are exactly: for each \<open>i\<close> below the part count, from \<open>i * (d / n)\<close> for
  \<open>d / n\<close> seconds. With a part size of 14.5 GB, 29 GB gives two parts and 14.4 GB one;
  with the threshold of 15 GB a file of 14.4 GB is not split.
\<close>

theorem split_plan_arithmetic:
  "num_parts cfg sz = \<lceil>sz / split_margin_gb cfg\<rceil>
   \<and> (\<forall>d. split_margin_gb cfg \<noteq> 0 \<and> video_duration e tr vp = Some d \<and> d \<noteq> 0
          \<and> \<not> cut_raised (new_events tr (snd (split_video cfg e vp od sz tr))) \<longrightarrow>
        cut_calls (new_events tr (snd (split_video cfg e vp od sz tr))) =
          map (\<lambda>i. (i, of_nat i * (d / of_int (num_parts cfg sz)), d / of_int (num_parts cfg sz),
                    part_file od vp i))
            [0..<nat (num_parts cfg sz)])
   \<and> (split_margin_gb cfg = 29 / 2 \<longrightarrow> num_parts cfg 29 = 2 \<and> num_parts cfg (72 / 5) = 1)
   \<and> (max_file_size_gb cfg = 15 \<longrightarrow> \<not> needs_split_of cfg 15461882265)"
proof -
  have a: "num_parts cfg sz = \<lceil>sz / split_margin_gb cfg\<rceil>"
    by (simp add: num_parts_def)
  have b: "\<forall>d. split_margin_gb cfg \<noteq> 0 \<and> video_duration e tr vp = Some d \<and> d \<noteq> 0
          \<and> \<not> cut_raised (new_events tr (snd (split_video cfg e vp od sz tr))) \<longrightarrow>
        cut_calls (new_events tr (snd (split_video cfg e vp od sz tr))) =
          map (\<lambda>i. (i, of_nat i * (d / of_int (num_parts cfg sz)), d / of_int (num_parts cfg sz),
                    part_file od vp i))
            [0..<nat (num_parts cfg sz)]"
    using split_video_new_events [of tr cfg e vp od sz] unfolding cut_plan_def by blast
  have c: "split_margin_gb cfg = 29 / 2 \<longrightarrow> num_parts cfg 29 = 2 \<and> num_parts cfg (72 / 5) = 1"
  proof
    assume m: "split_margin_gb cfg = 29 / 2"
    have x: "\<lceil>(29 :: rat) / (29 / 2)\<rceil> = 2" by simp
    have y: "\<lceil>(72 / 5 :: rat) / (29 / 2)\<rceil> = 1"
      by (simp add: ceiling_eq_iff)
    show "num_parts cfg 29 = 2 \<and> num_parts cfg (72 / 5) = 1"
      unfolding num_parts_def m using x y by blast
  qed
  have d: "max_file_size_gb cfg = 15 \<longrightarrow> \<not> needs_split_of cfg 15461882265"
    by (simp add: needs_split_of_def size_gb_of_def gib_def)
  from a b c d show ?thesis by blast
qed

theorem split_plan_arithmetic_witness:
  "split_margin_gb ex_config = 29 / 2
   \<and> max_file_size_gb ex_config = 15
   \<and> num_parts ex_config 29 = 2
   \<and> num_parts ex_config (72 / 5) = 1
   \<and> \<not> needs_split_of ex_config 15461882265
   \<and> video_duration ex_env [] ''/tmp/cache/downloads/rec.flv'' = Some 3600
   \<and> \<not> cut_raised (new_events []
         (snd (split_video ex_config ex_env ''/tmp/cache/downloads/rec.flv'' ''/tmp/cache/splits/rec''
            29 [])))
   \<and> cut_calls (new_events []
         (snd (split_video ex_config ex_env ''/tmp/cache/downloads/rec.flv'' ''/tmp/cache/splits/rec''
            29 []))) =
       [(0, 0, 1800, ''/tmp/cache/splits/rec/rec_part1.flv''),
        (1, 1800, 1800, ''/tmp/cache/splits/rec/rec_part2.flv'')]"
proof -
  have a: "split_margin_gb ex_config = 29 / 2" "max_file_size_gb ex_config = 15"
    "split_margin_gb ex_config \<noteq> 0"
    by (simp_all add: ex_config_def)
  have b: "video_duration ex_env [] ''/tmp/cache/downloads/rec.flv'' = Some 3600" "(3600 :: rat) \<noteq> 0"
    by (simp_all add: ex_env_def)
  have c: "\<not> cut_raised (new_events []
         (snd (split_video ex_config ex_env ''/tmp/cache/downloads/rec.flv'' ''/tmp/cache/splits/rec''
            29 [])))"
    by code_simp
  note t = split_plan_arithmetic [of ex_config 29 ex_env "[]" "''/tmp/cache/downloads/rec.flv''"
      "''/tmp/cache/splits/rec''"]
  from t a have n: "num_parts ex_config 29 = 2" "num_parts ex_config (72 / 5) = 1"
    "\<not> needs_split_of ex_config 15461882265"
    by blast+
  have p: "map (\<lambda>i. (i, of_nat i * ((3600 :: rat) / of_int 2), (3600 :: rat) / of_int 2,
        part_file ''/tmp/cache/splits/rec'' ''/tmp/cache/downloads/rec.flv'' i)) [0..<nat 2] =
      [(0, 0, 1800, ''/tmp/cache/splits/rec/rec_part1.flv''),
       (1, 1800, 1800, ''/tmp/cache/splits/rec/rec_part2.flv'')]"
    by code_simp
  from t a(3) b c have "cut_calls (new_events []
         (snd (split_video ex_config ex_env ''/tmp/cache/downloads/rec.flv'' ''/tmp/cache/splits/rec''
            29 []))) =
       map (\<lambda>i. (i, of_nat i * (3600 / of_int (num_parts ex_config 29)),
            3600 / of_int (num_parts ex_config 29),
            part_file ''/tmp/cache/splits/rec'' ''/tmp/cache/downloads/rec.flv'' i))
         [0..<nat (num_parts ex_config 29)]"
    by blast
  with n(1) p have q: "cut_calls (new_events []
         (snd (split_video ex_config ex_env ''/tmp/cache/downloads/rec.flv'' ''/tmp/cache/splits/rec''
            29 []))) =
       [(0, 0, 1800, ''/tmp/cache/splits/rec/rec_part1.flv''),
        (1, 1800, 1800, ''/tmp/cache/splits/rec/rec_part2.flv'')]"
    by simp
  from a(1,2) n b(1) c q show ?thesis by blast
qed

section \<open>Properties of the path resolver\<close>

lemma download_calls_append [simp]:
  "download_calls (a @ b) = download_calls a @ download_calls b"
  by (simp add: download_calls_def)

lemma download_calls_simps [simp]:
  "download_calls [] = []"
  "download_calls (EvDownload r l ok # evs) = (r, l) # download_calls evs"
  "download_calls (EvMount b # evs) = download_calls evs"
  by (simp_all add: download_calls_def)

lemma after_mount_downloads [simp]:
  "download_calls (trace (after_mount e ns w)) = download_calls (trace w)"
  by (simp add: after_mount_def mount_def log_event_def Let_def)

lemma get_video_path_local:
  assumes "local_copy_needed cfg e rpath fname ns w"
  shows "get_video_path cfg e rpath fname sz ns w =
     (if space_short cfg (disk_free e (trace (after_mount e ns w))) sz
      then (None, after_mount e ns w)
      else (if proc_ok (download_result e (trace (after_mount e ns w)) rpath
                  (path_join (path_join (local_cache_path cfg) ''downloads'') fname))
            then Some (path_join (path_join (local_cache_path cfg) ''downloads'') fname) else None,
            log_event (EvDownload rpath (path_join (path_join (local_cache_path cfg) ''downloads'') fname)
              (proc_ok (download_result e (trace (after_mount e ns w)) rpath
                  (path_join (path_join (local_cache_path cfg) ''downloads'') fname))))
              (after_mount e ns w)))"
proof -
  have "(if \<not> ns \<and> is_mounted (after_mount e ns w)
         then get_mounted_path cfg e (takeWhile (\<lambda>c. c \<noteq> CHR ''/'') rpath) fname (after_mount e ns w)
         else None) = None"
    using assms by (auto simp: local_copy_needed_def)
  then show ?thesis
    by (simp add: get_video_path_def after_mount_def [symmetric] download_file_def Let_def)
qed

text \<open>
  C6 (disk-space guard). When a local copy is needed, the resolver gives up exactly when
  \<open>free_space - size < min_free\<close>, the floor being the configured number of GB times
  \<open>1024 ^ 3\<close>: then it returns no path and the trace holds no new download call;
  otherwise exactly one download is started. With 10 GB free, a file of 8 GB and a floor
  of 5 GB the download is refused.
\<close>

theorem disk_space_guard:
  "(local_copy_needed cfg e rpath fname ns w \<longrightarrow>
      (space_short cfg (disk_free e (trace (after_mount e ns w))) sz \<longrightarrow>
         fst (get_video_path cfg e rpath fname sz ns w) = None
         \<and> download_calls (trace (snd (get_video_path cfg e rpath fname sz ns w))) =
             download_calls (trace w))
      \<and> (\<not> space_short cfg (disk_free e (trace (after_mount e ns w))) sz \<longrightarrow>
         download_calls (trace (snd (get_video_path cfg e rpath fname sz ns w))) =
           download_calls (trace w) @
             [(rpath, path_join (path_join (local_cache_path cfg) ''downloads'') fname)]))
   \<and> (space_short cfg free_space sz \<longleftrightarrow>
        of_int (free_space - sz) < min_free_space_gb cfg * 1024 ^ 3)
   \<and> (min_free_space_gb cfg = 5 \<longrightarrow> space_short cfg (10 * gib) (8 * gib))"
proof -
  have a: "local_copy_needed cfg e rpath fname ns w \<longrightarrow>
      (space_short cfg (disk_free e (trace (after_mount e ns w))) sz \<longrightarrow>
         fst (get_video_path cfg e rpath fname sz ns w) = None
         \<and> download_calls (trace (snd (get_video_path cfg e rpath fname sz ns w))) =
             download_calls (trace w))
      \<and> (\<not> space_short cfg (disk_free e (trace (after_mount e ns w))) sz \<longrightarrow>
         download_calls (trace (snd (get_video_path cfg e rpath fname sz ns w))) =
           download_calls (trace w) @
             [(rpath, path_join (path_join (local_cache_path cfg) ''downloads'') fname)])"
    by (simp add: get_video_path_local log_event_def)
  have b: "space_short cfg free_space sz \<longleftrightarrow>
        of_int (free_space - sz) < min_free_space_gb cfg * 1024 ^ 3"
    by (simp add: space_short_def gib_def)
  have c: "min_free_space_gb cfg = 5 \<longrightarrow> space_short cfg (10 * gib) (8 * gib)"
    by (simp add: space_short_def gib_def)
  from a b c show ?thesis by blast
qed

theorem disk_space_guard_witness:
  "local_copy_needed ex_config ex_env_small_disk ''1001-name/rec.flv'' ''rec.flv'' False ex_world
   \<and> min_free_space_gb ex_config = 5
   \<and> disk_free ex_env_small_disk (trace (after_mount ex_env_small_disk False ex_world)) = 10 * gib
   \<and> space_short ex_config (10 * gib) (8 * gib)
   \<and> fst (get_video_path ex_config ex_env_small_disk ''1001-name/rec.flv'' ''rec.flv'' (8 * gib) False
         ex_world) = None
   \<and> download_calls (trace (snd (get_video_path ex_config ex_env_small_disk ''1001-name/rec.flv''
         ''rec.flv'' (8 * gib) False ex_world))) = []
   \<and> \<not> space_short ex_config (10 * gib) (4 * gib)
   \<and> download_calls (trace (snd (get_video_path ex_config ex_env_small_disk ''1001-name/rec.flv''
         ''rec.flv'' (4 * gib) False ex_world))) =
       [(''1001-name/rec.flv'', ''/tmp/cache/downloads/rec.flv'')]"
proof -
  have a: "local_copy_needed ex_config ex_env_small_disk ''1001-name/rec.flv'' ''rec.flv'' False ex_world"
    by code_simp
  have b: "min_free_space_gb ex_config = 5"
    by (simp add: ex_config_def)
  have c: "disk_free ex_env_small_disk (trace (after_mount ex_env_small_disk False ex_world)) = 10 * gib"
    by (simp add: ex_env_small_disk_def)
  have d: "\<not> space_short ex_config (10 * gib) (4 * gib)"
    by (simp add: space_short_def gib_def ex_config_def)
  have e: "download_calls (trace ex_world) = []"
    by (simp add: ex_world_def)
  have f: "path_join (path_join (local_cache_path ex_config) ''downloads'') ''rec.flv'' =
      ''/tmp/cache/downloads/rec.flv''"
    by (simp add: path_join_def ex_config_def)
  note t8 = disk_space_guard [of ex_config ex_env_small_disk "''1001-name/rec.flv''" "''rec.flv''"
      False ex_world "8 * gib" "10 * gib"]
  note t4 = disk_space_guard [of ex_config ex_env_small_disk "''1001-name/rec.flv''" "''rec.flv''"
      False ex_world "4 * gib" "10 * gib"]
  from t8 b have g: "space_short ex_config (10 * gib) (8 * gib)"
    by blast
  from t8 a g c e have h: "fst (get_video_path ex_config ex_env_small_disk ''1001-name/rec.flv''
      ''rec.flv'' (8 * gib) False ex_world) = None
    \<and> download_calls (trace (snd (get_video_path ex_config ex_env_small_disk ''1001-name/rec.flv''
         ''rec.flv'' (8 * gib) False ex_world))) = []"
    by simp
  from t4 a d c e f have i: "download_calls (trace (snd (get_video_path ex_config ex_env_small_disk
      ''1001-name/rec.flv'' ''rec.flv'' (4 * gib) False ex_world))) =
       [(''1001-name/rec.flv'', ''/tmp/cache/downloads/rec.flv'')]"
    by simp
  from a b c g h d i show ?thesis by blast
qed

section \<open>Properties of the split upload\<close>

lemma publish_calls_append [simp]:
  "publish_calls (a @ b) = publish_calls a @ publish_calls b"
  by (simp add: publish_calls_def)

lemma publish_calls_simps [simp]:
  "publish_calls [] = []"
  "publish_calls (EvUpload p c r # evs) = EvUpload p c r # publish_calls evs"
  "publish_calls (EvAppend p b t r # evs) = EvAppend p b t r # publish_calls evs"
  "publish_calls (EvCover p q # evs) = publish_calls evs"
  "publish_calls (EvCleanup p ns # evs) = publish_calls evs"
  "publish_calls (EvSleep # evs) = publish_calls evs"
  "publish_calls (EvMount m # evs) = publish_calls evs"
  "publish_calls (EvDownload p q ok # evs) = publish_calls evs"
  "publish_calls (EvDuration p d # evs) = publish_calls evs"
  "publish_calls (EvCut i p s l out cr # evs) = publish_calls evs"
  "publish_calls (EvProgress n1 n2 n3 n4 n5 # evs) = publish_calls evs"
  by (simp_all add: publish_calls_def is_publish_def)

lemma publish_event_simps [simp]:
  "publish_path (EvUpload p c r) = p"
  "publish_path (EvAppend p b t r) = p"
  "publish_ok (EvUpload p c r) = truthy (parse_upload r)"
  "publish_ok (EvAppend p b t r) = proc_ok r"
  "upload_id (EvUpload p c r) = parse_upload r"
  "append_target (EvAppend p b t r) = Some b"
  by (simp_all add: publish_path_def publish_ok_def upload_id_def append_target_def)

lemma run_ok_nth: "run_ok pubs \<Longrightarrow> j + 1 < length pubs \<Longrightarrow> publish_ok (pubs ! j)"
proof (induction pubs arbitrary: j)
  case Nil
  then show ?case by simp
next
  case (Cons ev evs)
  then show ?case
    by (cases j) (auto split: if_splits)
qed

lemma run_ok_last: "run_ok pubs \<Longrightarrow> \<not> list_all publish_ok pubs \<Longrightarrow> \<not> publish_ok (last pubs)"
  by (induction pubs) (auto split: if_splits)

lemma publish_calls_cover [simp]: "publish_calls (cover_events cfg i f) = []"
  by (simp add: cover_events_def)

lemma cover_file_nonempty: "cover_file cfg f \<noteq> []"
  by (simp add: cover_file_def path_join_def)

lemma upload_segments_append_step:
  "\<not> (i = 1 \<and> mode = ModeNew) \<Longrightarrow>
   upload_segments cfg e vi mode i (f # rest) rb tr =
     (if \<not> proc_ok (append_result e (tr @ cover_events cfg i f) f rb (title vi @ '' - P'' @ str_nat i))
      then (None, tr @ cover_events cfg i f @
              [EvAppend f rb (title vi @ '' - P'' @ str_nat i)
                 (append_result e (tr @ cover_events cfg i f) f rb (title vi @ '' - P'' @ str_nat i))])
      else upload_segments cfg e vi mode (i + 1) rest rb
             (tr @ cover_events cfg i f @
              [EvAppend f rb (title vi @ '' - P'' @ str_nat i)
                 (append_result e (tr @ cover_events cfg i f) f rb (title vi @ '' - P'' @ str_nat i))]))"
  by (cases "i = 1") (simp_all add: Let_def append_video_def cover_events_def)

lemma upload_segments_first_step:
  "upload_segments cfg e vi ModeNew 1 (f # rest) rb tr =
     (if \<not> truthy (parse_upload (upload_result e (tr @ cover_events cfg 1 f) f
              (if cover_exists e (tr @ cover_events cfg 1 f) (cover_file cfg f)
               then Some (cover_file cfg f) else None)))
      then (None, tr @ cover_events cfg 1 f @
              [EvUpload f (if cover_exists e (tr @ cover_events cfg 1 f) (cover_file cfg f)
                           then Some (cover_file cfg f) else None)
                 (upload_result e (tr @ cover_events cfg 1 f) f
                    (if cover_exists e (tr @ cover_events cfg 1 f) (cover_file cfg f)
                     then Some (cover_file cfg f) else None))])
      else upload_segments cfg e vi ModeNew 2 rest
             (parse_upload (upload_result e (tr @ cover_events cfg 1 f) f
                (if cover_exists e (tr @ cover_events cfg 1 f) (cover_file cfg f)
                 then Some (cover_file cfg f) else None)))
             (tr @ cover_events cfg 1 f @
              [EvUpload f (if cover_exists e (tr @ cover_events cfg 1 f) (cover_file cfg f)
                           then Some (cover_file cfg f) else None)
                 (upload_result e (tr @ cover_events cfg 1 f) f
                    (if cover_exists e (tr @ cover_events cfg 1 f) (cover_file cfg f)
                     then Some (cover_file cfg f) else None))]))"
  by (simp add: Let_def upload_video_def cover_events_def cover_file_nonempty numeral_2_eq_2)

text \<open>
  The part of the loop that appends: every segment but the first, and the first too in
  append mode.
\<close>

lemma upload_segments_append:
  "(mode = ModeNew \<longrightarrow> 2 \<le> i) \<Longrightarrow>
   upload_segments cfg e vi mode i fs rb tr = (r, tr') \<Longrightarrow>
     \<exists>evs. tr' = tr @ evs
       \<and> map publish_path (publish_calls evs) = take (length (publish_calls evs)) fs
       \<and> run_ok (publish_calls evs)
       \<and> (length (publish_calls evs) < length fs \<longrightarrow> \<not> list_all publish_ok (publish_calls evs))
       \<and> r = (if list_all publish_ok (publish_calls evs) then rb else None)
       \<and> (\<forall>ev \<in> set (publish_calls evs). append_target ev = Some rb)"
proof (induction fs arbitrary: i tr)
  case Nil
  then show ?case by auto
next
  case (Cons f rest)
  let ?title = "title vi @ '' - P'' @ str_nat i"
  let ?r0 = "append_result e (tr @ cover_events cfg i f) f rb ?title"
  let ?step = "cover_events cfg i f @ [EvAppend f rb ?title ?r0]"
  from Cons.prems(1) have nofirst: "\<not> (i = 1 \<and> mode = ModeNew)"
    by auto
  note step = upload_segments_append_step [OF nofirst, of cfg e vi f rest rb tr]
  show ?case
  proof (cases "proc_ok ?r0")
    case False
    with Cons.prems(2) step have "r = None" "tr' = tr @ ?step"
      by simp_all
    with False show ?thesis
      by (intro exI [of _ ?step]) simp
  next
    case True
    with Cons.prems(2) step
    have "upload_segments cfg e vi mode (i + 1) rest rb (tr @ ?step) = (r, tr')"
      by simp
    moreover from Cons.prems(1) have "mode = ModeNew \<longrightarrow> 2 \<le> i + 1"
      by auto
    ultimately obtain evs where evs:
      "tr' = (tr @ ?step) @ evs"
      "map publish_path (publish_calls evs) = take (length (publish_calls evs)) rest"
      "run_ok (publish_calls evs)"
      "length (publish_calls evs) < length rest \<longrightarrow> \<not> list_all publish_ok (publish_calls evs)"
      "r = (if list_all publish_ok (publish_calls evs) then rb else None)"
      "\<forall>ev \<in> set (publish_calls evs). append_target ev = Some rb"
      using Cons.IH by blast
    with True show ?thesis
      by (intro exI [of _ "?step @ evs"]) simp
  qed
qed

text \<open>The whole loop, from segment 1, in both modes.\<close>

lemma upload_segments_run:
  assumes "upload_segments cfg e vi mode 1 fs target tr = (r, tr')"
  shows "\<exists>evs. tr' = tr @ evs
       \<and> map publish_path (publish_calls evs) = take (length (publish_calls evs)) fs
       \<and> run_ok (publish_calls evs)
       \<and> (length (publish_calls evs) < length fs \<longrightarrow> \<not> list_all publish_ok (publish_calls evs))
       \<and> (\<not> list_all publish_ok (publish_calls evs) \<longrightarrow> r = None)
       \<and> (mode = ModeNew \<longrightarrow>
            (\<forall>ev \<in> set (tl (publish_calls evs)).
               append_target ev = Some (upload_id (hd (publish_calls evs)))))
       \<and> (mode = ModeAppend \<longrightarrow> (\<forall>ev \<in> set (publish_calls evs). append_target ev = Some target))"
proof (cases mode)
  case ModeAppend
  then have "mode = ModeNew \<longrightarrow> 2 \<le> (1 :: nat)"
    by simp
  from upload_segments_append [OF this assms] ModeAppend show ?thesis
    by auto
next
  case ModeNew
  show ?thesis
  proof (cases fs)
    case Nil
    with assms show ?thesis
      by (intro exI [of _ "[]"]) simp
  next
    case (Cons f rest)
    let ?tr0 = "tr @ cover_events cfg 1 f"
    let ?cover = "if cover_exists e ?tr0 (cover_file cfg f) then Some (cover_file cfg f) else None"
    let ?res = "upload_result e ?tr0 f ?cover"
    let ?step = "cover_events cfg 1 f @ [EvUpload f ?cover ?res]"
    note step = upload_segments_first_step [of cfg e vi f rest target tr]
    show ?thesis
    proof (cases "truthy (parse_upload ?res)")
      case False
      with assms step ModeNew Cons have "r = None" "tr' = tr @ ?step"
        by simp_all
      with False Cons ModeNew show ?thesis
        by (intro exI [of _ ?step]) simp
    next
      case True
      with assms step ModeNew Cons
      have rest: "upload_segments cfg e vi mode 2 rest (parse_upload ?res) (tr @ ?step) = (r, tr')"
        by simp
      have "mode = ModeNew \<longrightarrow> 2 \<le> (2 :: nat)"
        by simp
      from upload_segments_append [OF this rest] obtain evs where evs:
        "tr' = (tr @ ?step) @ evs"
        "map publish_path (publish_calls evs) = take (length (publish_calls evs)) rest"
        "run_ok (publish_calls evs)"
        "length (publish_calls evs) < length rest \<longrightarrow> \<not> list_all publish_ok (publish_calls evs)"
        "r = (if list_all publish_ok (publish_calls evs) then parse_upload ?res else None)"
        "\<forall>ev \<in> set (publish_calls evs). append_target ev = Some (parse_upload ?res)"
        by blast
      with True Cons ModeNew show ?thesis
        by (intro exI [of _ "?step @ evs"]) simp
    qed
  qed
qed

text \<open>
  One run of the loop: the publish calls follow the list of files from its start, a call
  that is followed by another call succeeded, and a run with fewer calls than files ended
  on a failed call and returns no id.
\<close>

lemma upload_segments_order:
  "map publish_path (publish_calls (new_events tr (snd (upload_segments cfg e vi mode 1 fs target tr)))) =
     take (length (publish_calls (new_events tr (snd (upload_segments cfg e vi mode 1 fs target tr))))) fs
   \<and> (\<forall>j. j + 1 < length (publish_calls (new_events tr (snd (upload_segments cfg e vi mode 1 fs target tr)))) \<longrightarrow>
         publish_ok (publish_calls (new_events tr (snd (upload_segments cfg e vi mode 1 fs target tr))) ! j))
   \<and> (length (publish_calls (new_events tr (snd (upload_segments cfg e vi mode 1 fs target tr)))) < length fs \<longrightarrow>
         fst (upload_segments cfg e vi mode 1 fs target tr) = None
         \<and> publish_calls (new_events tr (snd (upload_segments cfg e vi mode 1 fs target tr))) \<noteq> []
         \<and> \<not> publish_ok (last (publish_calls (new_events tr (snd (upload_segments cfg e vi mode 1 fs target tr))))))
   \<and> (\<not> list_all publish_ok (publish_calls (new_events tr (snd (upload_segments cfg e vi mode 1 fs target tr)))) \<longrightarrow>
         fst (upload_segments cfg e vi mode 1 fs target tr) = None)
   \<and> (mode = ModeNew \<longrightarrow>
        (\<forall>j. 0 < j \<and> j < length (publish_calls (new_events tr (snd (upload_segments cfg e vi mode 1 fs target tr)))) \<longrightarrow>
           append_target (publish_calls (new_events tr (snd (upload_segments cfg e vi mode 1 fs target tr))) ! j) =
             Some (upload_id (publish_calls (new_events tr (snd (upload_segments cfg e vi mode 1 fs target tr))) ! 0))))
   \<and> (mode = ModeAppend \<longrightarrow>
        (\<forall>j. j < length (publish_calls (new_events tr (snd (upload_segments cfg e vi mode 1 fs target tr)))) \<longrightarrow>
           append_target (publish_calls (new_events tr (snd (upload_segments cfg e vi mode 1 fs target tr))) ! j) =
             Some target))
   \<and> (length fs = 3
        \<and> 2 \<le> length (publish_calls (new_events tr (snd (upload_segments cfg e vi mode 1 fs target tr))))
        \<and> \<not> publish_ok (publish_calls (new_events tr (snd (upload_segments cfg e vi mode 1 fs target tr))) ! 1) \<longrightarrow>
        map publish_path (publish_calls (new_events tr (snd (upload_segments cfg e vi mode 1 fs target tr)))) =
          take 2 fs)"
proof -
  obtain r tr' where eq: "upload_segments cfg e vi mode 1 fs target tr = (r, tr')"
    by (cases "upload_segments cfg e vi mode 1 fs target tr") auto
  from upload_segments_run [OF eq] obtain evs where tr': "tr' = tr @ evs"
    and path: "map publish_path (publish_calls evs) = take (length (publish_calls evs)) fs"
    and run: "run_ok (publish_calls evs)"
    and short: "length (publish_calls evs) < length fs \<longrightarrow> \<not> list_all publish_ok (publish_calls evs)"
    and fail: "\<not> list_all publish_ok (publish_calls evs) \<longrightarrow> r = None"
    and new: "mode = ModeNew \<longrightarrow>
            (\<forall>ev \<in> set (tl (publish_calls evs)).
               append_target ev = Some (upload_id (hd (publish_calls evs))))"
    and app: "mode = ModeAppend \<longrightarrow> (\<forall>ev \<in> set (publish_calls evs). append_target ev = Some target)"
    by blast
  define pubs where "pubs = publish_calls evs"
  have pubs: "publish_calls (new_events tr (snd (upload_segments cfg e vi mode 1 fs target tr))) = pubs"
    by (simp only: eq snd_conv tr' new_events_append pubs_def)
  have res: "fst (upload_segments cfg e vi mode 1 fs target tr) = r"
    by (simp only: eq fst_conv)
  note path = path [folded pubs_def] and run = run [folded pubs_def]
    and short = short [folded pubs_def] and fail = fail [folded pubs_def]
    and new = new [folded pubs_def] and app = app [folded pubs_def]
  have c2: "\<forall>j. j + 1 < length pubs \<longrightarrow> publish_ok (pubs ! j)"
    using run run_ok_nth by blast
  have c3: "length pubs < length fs \<longrightarrow> r = None \<and> pubs \<noteq> [] \<and> \<not> publish_ok (last pubs)"
  proof
    assume "length pubs < length fs"
    with short have bad: "\<not> list_all publish_ok pubs"
      by blast
    then have "pubs \<noteq> []"
      by auto
    with bad fail run_ok_last [OF run] show "r = None \<and> pubs \<noteq> [] \<and> \<not> publish_ok (last pubs)"
      by blast
  qed
  have c5: "mode = ModeNew \<longrightarrow>
      (\<forall>j. 0 < j \<and> j < length pubs \<longrightarrow> append_target (pubs ! j) = Some (upload_id (pubs ! 0)))"
  proof (intro impI allI)
    fix j
    assume m: "mode = ModeNew" and j: "0 < j \<and> j < length pubs"
    then obtain u apps where ua: "pubs = u # apps"
      by (cases pubs) auto
    with j have "pubs ! j \<in> set apps"
      by (cases j) auto
    with new m ua show "append_target (pubs ! j) = Some (upload_id (pubs ! 0))"
      by simp
  qed
  have c6: "mode = ModeAppend \<longrightarrow> (\<forall>j. j < length pubs \<longrightarrow> append_target (pubs ! j) = Some target)"
    using app by simp
  have c7: "length fs = 3 \<and> 2 \<le> length pubs \<and> \<not> publish_ok (pubs ! 1) \<longrightarrow>
      map publish_path pubs = take 2 fs"
  proof
    assume h: "length fs = 3 \<and> 2 \<le> length pubs \<and> \<not> publish_ok (pubs ! 1)"
    have "\<not> (1 + 1 < length pubs)"
      using c2 h by blast
    with h have "length pubs = 2"
      by simp
    with path show "map publish_path pubs = take 2 fs"
      by simp
  qed
  from path c2 c3 fail c5 c6 c7 show ?thesis
    unfolding pubs res by blast
qed

section \<open>Properties of the task and of the batch\<close>

subsection \<open>What the steps of an attempt leave untouched\<close>

lemma split_loop_no_publish:
  "split_loop e vp od pd idxs outs tr = (r, tr') \<Longrightarrow> publish_calls tr' = publish_calls tr"
proof (induction idxs arbitrary: outs tr)
  case Nil
  then show ?case by simp
next
  case (Cons i rest)
  show ?case
  proof (cases "cut_result e tr vp (of_nat i * pd) pd (part_file od vp i)")
    case CutRaised
    with Cons.prems show ?thesis
      by (auto simp: Let_def)
  next
    case (CutDone ex)
    with Cons.prems have "split_loop e vp od pd rest (if ex then outs @ [part_file od vp i] else outs)
        (tr @ [EvCut i vp (of_nat i * pd) pd (part_file od vp i) (CutDone ex)]) = (r, tr')"
      by (simp add: Let_def)
    from Cons.IH [OF this] show ?thesis
      by simp
  qed
qed

lemma split_video_no_publish:
  "publish_calls (snd (split_video cfg e vp od sz tr)) = publish_calls tr"
proof -
  have "publish_calls (snd (split_loop e vp od pd idxs outs tr1)) = publish_calls tr1"
    for pd idxs outs tr1
    using split_loop_no_publish [of e vp od pd idxs outs tr1] by (cases "split_loop e vp od pd idxs outs tr1") auto
  then show ?thesis
    by (auto simp: split_video_def Let_def split: option.splits prod.splits if_splits)
       (metis publish_calls_append publish_calls_simps(9) snd_conv append_Nil2)+
qed

lemma get_video_path_frame:
  "get_video_path cfg e rp fn sz ns w = (r, w1) \<Longrightarrow>
     hist w1 = hist w \<and> stats_success w1 = stats_success w \<and> stats_failed w1 = stats_failed w
     \<and> stats_skipped w1 = stats_skipped w \<and> publish_calls (trace w1) = publish_calls (trace w)"
  by (auto simp: get_video_path_def mount_def download_file_def log_event_def Let_def
      split: option.splits if_splits)

lemma upload_normal_video_frame:
  "upload_normal_video cfg e vp vi mode target w = (r, w2) \<Longrightarrow>
     hist w2 = hist w \<and> stats_success w2 = stats_success w \<and> stats_failed w2 = stats_failed w
     \<and> stats_skipped w2 = stats_skipped w"
  by (auto simp: upload_normal_video_def upload_video_def append_video_def log_event_def Let_def
      split: if_splits)

lemma upload_split_video_frame:
  "upload_split_video cfg e vp vi sz mode target w = (r, w2) \<Longrightarrow>
     hist w2 = hist w \<and> stats_success w2 = stats_success w \<and> stats_failed w2 = stats_failed w
     \<and> stats_skipped w2 = stats_skipped w"
  by (auto simp: upload_split_video_def split: prod.splits if_splits)

subsection \<open>The publish calls of one attempt\<close>

lemma upload_normal_video_publish:
  assumes "upload_normal_video cfg e vp vi mode target w = (r, w2)"
  shows "\<exists>ev. publish_calls (trace w2) = publish_calls (trace w) @ [ev]
     \<and> (mode = ModeNew \<longrightarrow> r = upload_id ev \<and> (\<exists>c tr0. ev = EvUpload vp c (upload_result e tr0 vp c)))
     \<and> (mode = ModeAppend \<longrightarrow>
          r = (if publish_ok ev then target else None)
          \<and> (\<exists>t tr0. ev = EvAppend vp target t (append_result e tr0 vp target t)))"
proof (cases mode)
  case ModeNew
  let ?tr0 = "trace w @ [EvCover vp (cover_file cfg vp)]"
  let ?c = "if cover_exists e ?tr0 (cover_file cfg vp) then Some (cover_file cfg vp) else None"
  let ?ev = "EvUpload vp ?c (upload_result e ?tr0 vp ?c)"
  from assms ModeNew have "r = upload_id ?ev" "trace w2 = ?tr0 @ [?ev]"
    by (auto simp: upload_normal_video_def upload_video_def log_event_def Let_def cover_file_nonempty)
  with ModeNew show ?thesis
    by (intro exI [of _ ?ev]) auto
next
  case ModeAppend
  let ?tr0 = "trace w @ [EvCover vp (cover_file cfg vp)]"
  let ?ev = "EvAppend vp target (title vi) (append_result e ?tr0 vp target (title vi))"
  from assms ModeAppend have "r = (if publish_ok ?ev then target else None)" "trace w2 = ?tr0 @ [?ev]"
    by (auto simp: upload_normal_video_def append_video_def log_event_def Let_def)
  with ModeAppend show ?thesis
    by (intro exI [of _ ?ev]) auto
qed

lemma upload_split_video_fail:
  assumes up: "\<forall>tr p c. \<not> truthy (parse_upload (upload_result e tr p c))"
    and ap: "\<forall>tr p b t. \<not> proc_ok (append_result e tr p b t)"
    and files: "fst (split_video cfg e vp (split_dir cfg vp) sz (trace w)) \<noteq> []"
    and run: "upload_split_video cfg e vp vi sz mode target w = (r, w2)"
  shows "r = None \<and> (\<exists>ev. publish_calls (trace w2) = publish_calls (trace w) @ [ev] \<and> \<not> publish_ok ev)"
proof -
  obtain fs tr1 where sp: "split_video cfg e vp (split_dir cfg vp) sz (trace w) = (fs, tr1)"
    by (cases "split_video cfg e vp (split_dir cfg vp) sz (trace w)") auto
  with files obtain f rest where fs: "fs = f # rest"
    by (cases fs) auto
  from sp split_video_no_publish [of cfg e vp "split_dir cfg vp" sz "trace w"]
  have quiet: "publish_calls tr1 = publish_calls (trace w)"
    by simp
  from run sp fs have seg: "upload_segments cfg e vi mode 1 (f # rest) target tr1 = (r, trace w2)"
    by (auto simp: upload_split_video_def split: prod.splits)
  show ?thesis
  proof (cases mode)
    case ModeNew
    let ?tr0 = "tr1 @ cover_events cfg 1 f"
    let ?c = "if cover_exists e ?tr0 (cover_file cfg f) then Some (cover_file cfg f) else None"
    let ?ev = "EvUpload f ?c (upload_result e ?tr0 f ?c)"
    from up have bad: "\<not> truthy (parse_upload (upload_result e ?tr0 f ?c))"
      by blast
    from seg ModeNew upload_segments_first_step [of cfg e vi f rest target tr1] bad
    have "r = None" "trace w2 = tr1 @ cover_events cfg 1 f @ [?ev]"
      by simp_all
    with quiet bad show ?thesis
      by (intro conjI exI [of _ ?ev]) simp_all
  next
    case ModeAppend
    let ?title = "title vi @ '' - P'' @ str_nat 1"
    let ?tr0 = "tr1 @ cover_events cfg 1 f"
    let ?ev = "EvAppend f target ?title (append_result e ?tr0 f target ?title)"
    from ap have bad: "\<not> proc_ok (append_result e ?tr0 f target ?title)"
      by blast
    from ModeAppend have "\<not> (1 = (1 :: nat) \<and> mode = ModeNew)"
      by simp
    from seg upload_segments_append_step [OF this, of cfg e vi f rest target tr1] bad
    have "r = None" "trace w2 = tr1 @ cover_events cfg 1 f @ [?ev]"
      by simp_all
    with quiet bad show ?thesis
      by (intro conjI exI [of _ ?ev]) simp_all
  qed
qed

lemma attempt_all_fail:
  assumes path: "fst (get_video_path cfg e (remote_path vd) (filename vd) (vsize vd)
        (needs_split_of cfg (vsize vd)) w) \<noteq> None"
    and split: "needs_split_of cfg (vsize vd) \<longrightarrow>
        (\<forall>p tr. fst (split_video cfg e p (split_dir cfg p) (size_gb_of (vsize vd)) tr) \<noteq> [])"
    and up: "\<forall>tr p c. \<not> truthy (parse_upload (upload_result e tr p c))"
    and ap: "\<forall>tr p b t. \<not> proc_ok (append_result e tr p b t)"
  shows "\<exists>w' ev. attempt cfg e vd mode target w = (Some msg_upload_failed, w')
     \<and> hist w' = hist w \<and> stats_failed w' = stats_failed w \<and> stats_success w' = stats_success w
     \<and> publish_calls (trace w') = publish_calls (trace w) @ [ev] \<and> \<not> publish_ok ev"
proof -
  let ?ns = "needs_split_of cfg (vsize vd)"
  from path obtain vp w1 where gvp:
    "get_video_path cfg e (remote_path vd) (filename vd) (vsize vd) ?ns w = (Some vp, w1)"
    by (cases "get_video_path cfg e (remote_path vd) (filename vd) (vsize vd) ?ns w") auto
  note f1 = get_video_path_frame [OF gvp]
  show ?thesis
  proof (cases ?ns)
    case True
    obtain r w2 where run:
      "upload_split_video cfg e vp (info vd) (size_gb_of (vsize vd)) mode target w1 = (r, w2)"
      by (cases "upload_split_video cfg e vp (info vd) (size_gb_of (vsize vd)) mode target w1") auto
    from split True
    have "fst (split_video cfg e vp (split_dir cfg vp) (size_gb_of (vsize vd)) (trace w1)) \<noteq> []"
      by blast
    from upload_split_video_fail [OF up ap this run] obtain ev where ev:
      "r = None" "publish_calls (trace w2) = publish_calls (trace w1) @ [ev]" "\<not> publish_ok ev"
      by blast
    note f2 = upload_split_video_frame [OF run]
    from gvp run True ev(1)
    have "attempt cfg e vd mode target w = (Some msg_upload_failed, log_event (EvCleanup vp True) w2)"
      by (simp add: attempt_def Let_def truthy_def)
    with f1 f2 ev show ?thesis
      by (intro exI [of _ "log_event (EvCleanup vp True) w2"] exI [of _ ev]) (simp add: log_event_def)
  next
    case False
    obtain r w2 where run: "upload_normal_video cfg e vp (info vd) mode target w1 = (r, w2)"
      by (cases "upload_normal_video cfg e vp (info vd) mode target w1") auto
    from upload_normal_video_publish [OF run] obtain ev where ev:
      "publish_calls (trace w2) = publish_calls (trace w1) @ [ev]"
      "mode = ModeNew \<longrightarrow> r = upload_id ev \<and> (\<exists>c tr0. ev = EvUpload vp c (upload_result e tr0 vp c))"
      "mode = ModeAppend \<longrightarrow> r = (if publish_ok ev then target else None)
          \<and> (\<exists>t tr0. ev = EvAppend vp target t (append_result e tr0 vp target t))"
      by blast
    have bad: "\<not> publish_ok ev \<and> \<not> truthy r"
    proof (cases mode)
      case ModeNew
      with ev(2) up show ?thesis by auto
    next
      case ModeAppend
      with ev(3) ap show ?thesis by (auto simp: truthy_def)
    qed
    note f2 = upload_normal_video_frame [OF run]
    from gvp run False bad
    have "attempt cfg e vd mode target w = (Some msg_upload_failed, log_event (EvCleanup vp False) w2)"
      by (simp add: attempt_def Let_def)
    with f1 f2 ev(1) bad show ?thesis
      by (intro exI [of _ "log_event (EvCleanup vp False) w2"] exI [of _ ev]) (simp add: log_event_def)
  qed
qed

lemma attempt_exit_zero:
  assumes path: "fst (get_video_path cfg e (remote_path vd) (filename vd) (vsize vd)
        (needs_split_of cfg (vsize vd)) w) \<noteq> None"
    and direct: "\<not> needs_split_of cfg (vsize vd)"
    and up: "\<forall>tr p c. \<exists>out. upload_result e tr p c = Exited 0 out \<and> find_bvid out = None"
  shows "\<exists>w' ev. attempt cfg e vd ModeNew target w = (Some msg_upload_failed, w')
     \<and> hist w' = hist w \<and> stats_failed w' = stats_failed w \<and> stats_success w' = stats_success w
     \<and> publish_calls (trace w') = publish_calls (trace w) @ [ev] \<and> upload_exit_zero ev"
proof -
  let ?ns = "needs_split_of cfg (vsize vd)"
  from path obtain vp w1 where gvp:
    "get_video_path cfg e (remote_path vd) (filename vd) (vsize vd) ?ns w = (Some vp, w1)"
    by (cases "get_video_path cfg e (remote_path vd) (filename vd) (vsize vd) ?ns w") auto
  note f1 = get_video_path_frame [OF gvp]
  obtain r w2 where run: "upload_normal_video cfg e vp (info vd) ModeNew target w1 = (r, w2)"
    by (cases "upload_normal_video cfg e vp (info vd) ModeNew target w1") auto
  from upload_normal_video_publish [OF run] obtain ev c tr0 where ev:
    "publish_calls (trace w2) = publish_calls (trace w1) @ [ev]"
    "r = upload_id ev" "ev = EvUpload vp c (upload_result e tr0 vp c)"
    by blast
  from up obtain out where out: "upload_result e tr0 vp c = Exited 0 out" "find_bvid out = None"
    by blast
  with ev have bad: "upload_exit_zero ev" "\<not> truthy r"
    by (simp_all add: upload_exit_zero_def parse_upload_def truthy_def)
  note f2 = upload_normal_video_frame [OF run]
  from gvp run direct bad
  have "attempt cfg e vd ModeNew target w = (Some msg_upload_failed, log_event (EvCleanup vp False) w2)"
    by (simp add: attempt_def Let_def)
  with f1 f2 ev(1) bad show ?thesis
    by (intro exI [of _ "log_event (EvCleanup vp False) w2"] exI [of _ ev]) (simp add: log_event_def)
qed

subsection \<open>The retry loop when every attempt fails\<close>

lemma retry_loop_exhausted:
  assumes step: "\<And>w. \<exists>w' ev. attempt cfg e vd mode target w = (Some msg, w')
       \<and> hist w' = hist w \<and> stats_failed w' = stats_failed w \<and> stats_success w' = stats_success w
       \<and> publish_calls (trace w') = publish_calls (trace w) @ [ev] \<and> P ev"
    and k: "k < nat (retry_times cfg)"
  shows "\<exists>w' evs t. retry_loop cfg e vd mode target [k..<nat (retry_times cfg)] w = (False, w')
     \<and> history (hist w') = history (hist w)
     \<and> failed (hist w') = failed (hist w) @
          [\<lparr>failed_path = Some (remote_path vd), error_msg = msg, failed_time = t\<rparr>]
     \<and> stats_failed w' = stats_failed w + 1 \<and> stats_success w' = stats_success w
     \<and> publish_calls (trace w') = publish_calls (trace w) @ evs
     \<and> length evs = nat (retry_times cfg) - k \<and> list_all P evs"
  using k
proof (induction "nat (retry_times cfg) - k" arbitrary: k w)
  case 0
  then show ?case by simp
next
  case (Suc d)
  let ?n = "nat (retry_times cfg)"
  from Suc.prems have unfold: "[k..<?n] = k # [Suc k..<?n]"
    by (simp add: upt_conv_Cons)
  from step [of w] obtain w1 ev where a:
    "attempt cfg e vd mode target w = (Some msg, w1)" "hist w1 = hist w"
    "stats_failed w1 = stats_failed w" "stats_success w1 = stats_success w"
    "publish_calls (trace w1) = publish_calls (trace w) @ [ev]" "P ev"
    by blast
  show ?case
  proof (cases "int k = retry_times cfg - 1")
    case True
    then have last: "?n - k = 1"
      by simp
    let ?w' = "w1\<lparr>hist := add_failed (write_result e (trace w1)) (clock e (trace w1))
                    (Some (remote_path vd)) msg (hist w1),
                stats_failed := stats_failed w1 + 1\<rparr>"
    from a(1) True have "retry_loop cfg e vd mode target [k..<?n] w = (False, ?w')"
      by (simp add: unfold)
    with a last show ?thesis
      by (intro exI [of _ ?w'] exI [of _ "[ev]"] exI [of _ "clock e (trace w1)"])
        (simp add: add_failed_def save_failed_def)
  next
    case False
    with Suc.prems have next_k: "Suc k < ?n"
      by linarith
    from Suc.hyps(2) have d: "d = ?n - Suc k"
      by simp
    let ?w2 = "log_event EvSleep w1"
    from Suc.hyps(1) [OF d next_k, of ?w2] obtain w' evs t where b:
      "retry_loop cfg e vd mode target [Suc k..<?n] ?w2 = (False, w')"
      "history (hist w') = history (hist ?w2)"
      "failed (hist w') = failed (hist ?w2) @
          [\<lparr>failed_path = Some (remote_path vd), error_msg = msg, failed_time = t\<rparr>]"
      "stats_failed w' = stats_failed ?w2 + 1" "stats_success w' = stats_success ?w2"
      "publish_calls (trace w') = publish_calls (trace ?w2) @ evs"
      "length evs = ?n - Suc k" "list_all P evs"
      by blast
    from a(1) False b(1) have "retry_loop cfg e vd mode target [k..<?n] w = (False, w')"
      by (simp add: unfold)
    with a b next_k show ?thesis
      by (intro exI [of _ w'] exI [of _ "ev # evs"] exI [of _ t]) (simp add: log_event_def)
  qed
qed

lemma ex_split_needed: "needs_split_of ex_config (29 * gib)"
  by (simp add: needs_split_of_def size_gb_of_def gib_def ex_config_def)

lemma ex_direct: "\<not> needs_split_of ex_config (5 * gib)"
  by (simp add: needs_split_of_def size_gb_of_def gib_def ex_config_def)

lemma ex_split_path:
  "fst (get_video_path ex_config (ex_env\<lparr>upload_result := u, append_result := a\<rparr>)
      ''1001-name/rec.flv'' ''rec.flv'' (29 * gib) True w) \<noteq> None"
  by (simp add: get_video_path_def ex_env_def space_short_def ex_config_def gib_def download_file_def
      proc_ok_def Let_def)

lemma ex_direct_path:
  "fst (get_video_path ex_config (ex_env\<lparr>upload_result := u\<rparr>)
      ''1001-name/rec.flv'' ''rec.flv'' (5 * gib) False w) \<noteq> None"
  by (cases "is_mounted w")
    (simp_all add: get_video_path_def ex_env_def mount_def get_mounted_path_def log_event_def Let_def)

lemma ex_split_files:
  "fst (split_video ex_config (ex_env\<lparr>upload_result := u, append_result := a\<rparr>) p
      (split_dir ex_config p) (size_gb_of (29 * gib)) tr) \<noteq> []"
proof -
  have n: "num_parts ex_config (size_gb_of (29 * gib)) = 2"
    by (simp add: num_parts_def size_gb_of_def gib_def ex_config_def)
  have idx: "[0..<(2 :: nat)] = [0, 1]"
    by (simp add: upt_rec)
  have m: "split_margin_gb ex_config \<noteq> 0"
    by (simp add: ex_config_def)
  have d: "video_duration ex_env tr' q = Some 3600" for tr' q
    by (simp add: ex_env_def)
  have c: "cut_result ex_env tr' q s l out = CutDone True" for tr' q s l out
    by (simp add: ex_env_def)
  show ?thesis
    by (simp add: split_video_def n idx m d c Let_def)
qed

text \<open>
  C3 (retry exhaustion). Let every attempt reach the publish step (the path is resolved
  and, for a split task, the planner returns segments) and let every publish call fail.
  Then the task makes as many publish calls as the configured retry count (3 calls for a
  count of 3), returns \<open>False\<close>, appends no success entry and exactly one failure entry,
  which carries the message of the last exception, and the batch loop goes on with the
  rest of the batch.
\<close>

theorem retry_exhaustion:
  assumes retries: "0 < retry_times cfg"
    and path: "\<forall>w. fst (get_video_path cfg e (remote_path vd) (filename vd) (vsize vd)
        (needs_split_of cfg (vsize vd)) w) \<noteq> None"
    and split: "needs_split_of cfg (vsize vd) \<longrightarrow>
        (\<forall>p tr. fst (split_video cfg e p (split_dir cfg p) (size_gb_of (vsize vd)) tr) \<noteq> [])"
    and up: "\<forall>tr p c. \<not> truthy (parse_upload (upload_result e tr p c))"
    and ap: "\<forall>tr p b t. \<not> proc_ok (append_result e tr p b t)"
  shows "fst (upload_single_video cfg e vd mode target w) = False
     \<and> length (publish_calls (trace (snd (upload_single_video cfg e vd mode target w)))) =
         length (publish_calls (trace w)) + nat (retry_times cfg)
     \<and> (retry_times cfg = 3 \<longrightarrow>
         length (publish_calls (trace (snd (upload_single_video cfg e vd mode target w)))) =
           length (publish_calls (trace w)) + 3)
     \<and> history (hist (snd (upload_single_video cfg e vd mode target w))) = history (hist w)
     \<and> (\<exists>t. failed (hist (snd (upload_single_video cfg e vd mode target w))) =
           failed (hist w) @
             [\<lparr>failed_path = Some (remote_path vd), error_msg = msg_upload_failed, failed_time = t\<rparr>])
     \<and> stats_failed (snd (upload_single_video cfg e vd mode target w)) = stats_failed w + 1
     \<and> batch_loop cfg e mode target total_n current (vd # rest) w =
         batch_loop cfg e mode target total_n (current + 1) rest
           (snd (upload_single_video cfg e vd mode target
              (log_event (EvProgress (current + 1) total_n (stats_success w) (stats_failed w)
                 (stats_skipped w)) w)))"
proof -
  have step: "\<exists>w' ev. attempt cfg e vd mode target v = (Some msg_upload_failed, w')
       \<and> hist w' = hist v \<and> stats_failed w' = stats_failed v \<and> stats_success w' = stats_success v
       \<and> publish_calls (trace w') = publish_calls (trace v) @ [ev] \<and> \<not> publish_ok ev" for v
    using attempt_all_fail [OF _ split up ap, of v mode target] path by blast
  from retries have k: "0 < nat (retry_times cfg)"
    by simp
  have run: "\<exists>w' evs t. upload_single_video cfg e vd mode target v = (False, w')
     \<and> history (hist w') = history (hist v)
     \<and> failed (hist w') = failed (hist v) @
          [\<lparr>failed_path = Some (remote_path vd), error_msg = msg_upload_failed, failed_time = t\<rparr>]
     \<and> stats_failed w' = stats_failed v + 1 \<and> stats_success w' = stats_success v
     \<and> publish_calls (trace w') = publish_calls (trace v) @ evs
     \<and> length evs = nat (retry_times cfg) - 0 \<and> list_all (\<lambda>ev. \<not> publish_ok ev) evs" for v
    unfolding upload_single_video_def
    by (rule retry_loop_exhausted [where P = "\<lambda>ev. \<not> publish_ok ev", OF step k])
  from run [of w] obtain w' evs t where a:
    "upload_single_video cfg e vd mode target w = (False, w')"
    "history (hist w') = history (hist w)"
    "failed (hist w') = failed (hist w) @
          [\<lparr>failed_path = Some (remote_path vd), error_msg = msg_upload_failed, failed_time = t\<rparr>]"
    "stats_failed w' = stats_failed w + 1"
    "publish_calls (trace w') = publish_calls (trace w) @ evs"
    "length evs = nat (retry_times cfg) - 0"
    by blast
  let ?w1 = "log_event (EvProgress (current + 1) total_n (stats_success w) (stats_failed w)
                 (stats_skipped w)) w"
  from run [of ?w1] obtain w2 where "upload_single_video cfg e vd mode target ?w1 = (False, w2)"
    by blast
  then have batch: "batch_loop cfg e mode target total_n current (vd # rest) w =
      batch_loop cfg e mode target total_n (current + 1) rest
        (snd (upload_single_video cfg e vd mode target ?w1))"
    by (simp add: Let_def)
  from a batch show ?thesis
    by auto
qed

text \<open>
  A split task of 29 GB with three attempts, every publish call failing: three publish
  calls, one failure entry, no success entry.
\<close>

theorem retry_exhaustion_witness:
  "0 < retry_times ex_config
   \<and> retry_times ex_config = 3
   \<and> needs_split_of ex_config (vsize (ex_video (29 * gib)))
   \<and> (\<forall>w. fst (get_video_path ex_config ex_env_publish_fails (remote_path (ex_video (29 * gib)))
          (filename (ex_video (29 * gib))) (vsize (ex_video (29 * gib)))
          (needs_split_of ex_config (vsize (ex_video (29 * gib)))) w) \<noteq> None)
   \<and> (\<forall>p tr. fst (split_video ex_config ex_env_publish_fails p (split_dir ex_config p)
          (size_gb_of (vsize (ex_video (29 * gib)))) tr) \<noteq> [])
   \<and> (\<forall>tr p c. \<not> truthy (parse_upload (upload_result ex_env_publish_fails tr p c)))
   \<and> (\<forall>tr p b t. \<not> proc_ok (append_result ex_env_publish_fails tr p b t))
   \<and> fst (upload_single_video ex_config ex_env_publish_fails (ex_video (29 * gib)) ModeNew None ex_world)
       = False
   \<and> length (publish_calls (trace (snd (upload_single_video ex_config ex_env_publish_fails
         (ex_video (29 * gib)) ModeNew None ex_world)))) = 3
   \<and> history (hist (snd (upload_single_video ex_config ex_env_publish_fails (ex_video (29 * gib))
         ModeNew None ex_world))) = []
   \<and> length (failed (hist (snd (upload_single_video ex_config ex_env_publish_fails (ex_video (29 * gib))
         ModeNew None ex_world)))) = 1"
proof -
  have a: "0 < retry_times ex_config" "retry_times ex_config = 3"
    by (simp_all add: ex_config_def)
  have b: "needs_split_of ex_config (vsize (ex_video (29 * gib)))"
    by (simp add: ex_video_def ex_split_needed)
  have c: "\<forall>w. fst (get_video_path ex_config ex_env_publish_fails (remote_path (ex_video (29 * gib)))
          (filename (ex_video (29 * gib))) (vsize (ex_video (29 * gib)))
          (needs_split_of ex_config (vsize (ex_video (29 * gib)))) w) \<noteq> None"
    by (simp add: ex_video_def ex_split_needed ex_env_publish_fails_def ex_split_path)
  have d: "\<forall>p tr. fst (split_video ex_config ex_env_publish_fails p (split_dir ex_config p)
          (size_gb_of (vsize (ex_video (29 * gib)))) tr) \<noteq> []"
    by (simp add: ex_video_def ex_env_publish_fails_def ex_split_files)
  have e: "\<forall>tr p c. \<not> truthy (parse_upload (upload_result ex_env_publish_fails tr p c))"
    by (simp add: ex_env_publish_fails_def parse_upload_def truthy_def)
  have f: "\<forall>tr p b t. \<not> proc_ok (append_result ex_env_publish_fails tr p b t)"
    by (simp add: ex_env_publish_fails_def proc_ok_def)
  have g: "publish_calls (trace ex_world) = []" "history (hist ex_world) = []" "failed (hist ex_world) = []"
    by (simp_all add: ex_world_def empty_ledger_def init_history_def load_file_def)
  from d have d': "needs_split_of ex_config (vsize (ex_video (29 * gib))) \<longrightarrow>
      (\<forall>p tr. fst (split_video ex_config ex_env_publish_fails p (split_dir ex_config p)
          (size_gb_of (vsize (ex_video (29 * gib)))) tr) \<noteq> [])"
    by blast
  note t = retry_exhaustion [OF a(1) c d' e f, of ModeNew None ex_world]
  from t have h1:
    "fst (upload_single_video ex_config ex_env_publish_fails (ex_video (29 * gib)) ModeNew None ex_world)
       = False"
    by blast
  from t a(2) have "length (publish_calls (trace (snd (upload_single_video ex_config ex_env_publish_fails
         (ex_video (29 * gib)) ModeNew None ex_world)))) = length (publish_calls (trace ex_world)) + 3"
    by blast
  with g have h2: "length (publish_calls (trace (snd (upload_single_video ex_config ex_env_publish_fails
         (ex_video (29 * gib)) ModeNew None ex_world)))) = 3"
    by simp
  from t have "history (hist (snd (upload_single_video ex_config ex_env_publish_fails (ex_video (29 * gib))
         ModeNew None ex_world))) = history (hist ex_world)"
    by blast
  with g have h3: "history (hist (snd (upload_single_video ex_config ex_env_publish_fails
         (ex_video (29 * gib)) ModeNew None ex_world))) = []"
    by simp
  from t obtain ft where "failed (hist (snd (upload_single_video ex_config ex_env_publish_fails
         (ex_video (29 * gib)) ModeNew None ex_world))) =
       failed (hist ex_world) @
         [\<lparr>failed_path = Some (remote_path (ex_video (29 * gib))), error_msg = msg_upload_failed,
           failed_time = ft\<rparr>]"
    by blast
  with g have h4: "length (failed (hist (snd (upload_single_video ex_config ex_env_publish_fails
         (ex_video (29 * gib)) ModeNew None ex_world)))) = 1"
    by simp
  note h = h1 h2 h3 h4
  from a b c d e f h show ?thesis
    by blast
qed

subsection \<open>The counter of skipped tasks\<close>

lemma attempt_skipped: "stats_skipped (snd (attempt cfg e vd mode target w)) = stats_skipped w"
proof -
  let ?ns = "needs_split_of cfg (vsize vd)"
  obtain p w1 where gvp:
    "get_video_path cfg e (remote_path vd) (filename vd) (vsize vd) ?ns w = (p, w1)"
    by (cases "get_video_path cfg e (remote_path vd) (filename vd) (vsize vd) ?ns w") auto
  note f1 = get_video_path_frame [OF gvp]
  show ?thesis
  proof (cases p)
    case None
    with gvp f1 show ?thesis
      by (simp add: attempt_def Let_def)
  next
    case (Some vp)
    obtain r w2 where run:
      "(if ?ns then upload_split_video cfg e vp (info vd) (size_gb_of (vsize vd)) mode target w1
        else upload_normal_video cfg e vp (info vd) mode target w1) = (r, w2)"
      by (cases "if ?ns then upload_split_video cfg e vp (info vd) (size_gb_of (vsize vd)) mode target w1
        else upload_normal_video cfg e vp (info vd) mode target w1") auto
    then have f2: "stats_skipped w2 = stats_skipped w1"
      using upload_split_video_frame upload_normal_video_frame by (auto split: if_splits)
    from gvp Some run f1 f2 show ?thesis
      by (auto simp: attempt_def Let_def log_event_def split: if_splits)
  qed
qed

lemma retry_loop_skipped:
  "stats_skipped (snd (retry_loop cfg e vd mode target attempts w)) = stats_skipped w"
proof (induction attempts arbitrary: w)
  case Nil
  then show ?case by simp
next
  case (Cons a rest)
  obtain r w1 where at: "attempt cfg e vd mode target w = (r, w1)"
    by (cases "attempt cfg e vd mode target w") auto
  with attempt_skipped [of cfg e vd mode target w] have "stats_skipped w1 = stats_skipped w"
    by simp
  with at Cons.IH [of "log_event EvSleep w1"] show ?case
    by (cases r) (simp_all add: log_event_def)
qed

lemma batch_loop_skipped:
  "stats_skipped (batch_loop cfg e mode target total_n current videos w) = stats_skipped w"
proof (induction videos arbitrary: current w)
  case Nil
  then show ?case by simp
next
  case (Cons vd rest)
  let ?w1 = "log_event (EvProgress (current + 1) total_n (stats_success w) (stats_failed w)
      (stats_skipped w)) w"
  obtain ok w2 where one: "upload_single_video cfg e vd mode target ?w1 = (ok, w2)"
    by (cases "upload_single_video cfg e vd mode target ?w1") auto
  with retry_loop_skipped [of cfg e vd mode target "[0..<nat (retry_times cfg)]" ?w1]
  have "stats_skipped w2 = stats_skipped w"
    by (simp add: upload_single_video_def log_event_def)
  with one Cons.IH [of "current + 1" "if ok then w2\<lparr>stats_success := stats_success w2 + 1\<rparr> else w2"]
  show ?case
    by (simp add: Let_def)
qed

text \<open>
  C1 (idempotence and uniqueness of fingerprints), as the code has it. After
  \<open>add_success\<close> for a pair, \<open>is_uploaded\<close> holds for that pair. \<open>add_success\<close> appends
  one entry and does not look for an entry with the same fingerprint; the fingerprints
  stay distinct when the pair was not in the log. The check is made where the batch is
  built: the candidate list holds no pair that is already in the log. The batch loop
  itself skips nothing: it leaves the counter of skipped tasks as it was.
\<close>

theorem is_uploaded_after_add_success:
  "is_uploaded (add_success w now p s b sp ps h) p s
   \<and> length (history (add_success w now p s b sp ps h)) = length (history h) + 1
   \<and> (\<forall>vd \<in> set (build_upload_list h parse folder streamer sizes sel).
         \<not> is_uploaded h (remote_path vd) (vsize vd))
   \<and> (\<not> is_uploaded h p s \<and> distinct (map fingerprint (history h)) \<longrightarrow>
         distinct (map fingerprint (history (add_success w now p s b sp ps h))))
   \<and> stats_skipped (batch_upload_videos cfg e videos mode target v) = stats_skipped v"
  by (auto simp: is_uploaded_def is_uploaded_loop_iff add_success_def save_history_def
      fingerprint_def batch_upload_videos_def batch_loop_skipped dest: build_upload_list_fresh)

theorem is_uploaded_after_add_success_witness:
  "\<not> is_uploaded ex_ledger ''a/6.flv'' 6
   \<and> distinct (map fingerprint (history ex_ledger))
   \<and> is_uploaded (add_success WriteOk ''2024-01-15 14:00:00'' ''a/6.flv'' 6 (Some ''BV6'') False None
         ex_ledger) ''a/6.flv'' 6
   \<and> distinct (map fingerprint
         (history (add_success WriteOk ''2024-01-15 14:00:00'' ''a/6.flv'' 6 (Some ''BV6'') False None
            ex_ledger)))
   \<and> map remote_path (build_upload_list ex_ledger ex_info ''a'' ''name''
         [''1.flv'' \<mapsto> 1, ''6.flv'' \<mapsto> 6] [''1.flv'', ''6.flv'']) = [''a/6.flv'']"
  using is_uploaded_after_add_success [of WriteOk "''2024-01-15 14:00:00''" "''a/6.flv''" 6
      "Some ''BV6''" False None ex_ledger ex_info "''a''" "''name''"
      "[''1.flv'' \<mapsto> 1, ''6.flv'' \<mapsto> 6]" "[''1.flv'', ''6.flv'']"]
  by (simp add: is_uploaded_def ex_ledger_history ex_record_def record_matches_def fingerprint_def
      ex_info_def)

text \<open>
  The claim as written fails: the batch loop does not consult the history, so a pair
  that occurs twice in one batch is uploaded twice, recorded twice and never skipped.
\<close>

theorem duplicate_in_batch_counterexample:
  "length (filter (record_matches ''1001-name/rec.flv'' (5 * gib)) (history (hist ex_twice_world))) = 2
   \<and> \<not> distinct (map fingerprint (history (hist ex_twice_world)))
   \<and> stats_success ex_twice_world = 2
   \<and> stats_skipped ex_twice_world = 0"
  by code_simp

subsection \<open>One run of the split upload, and what follows a failed run\<close>

lemma split_video_quiet:
  "\<exists>evs. snd (split_video cfg e vp od sz tr) = tr @ evs \<and> publish_calls evs = []"
proof -
  obtain files tr' where eq: "split_video cfg e vp od sz tr = (files, tr')"
    by (cases "split_video cfg e vp od sz tr") auto
  from split_video_cases [OF eq] obtain evs where evs: "tr' = tr @ evs"
    by blast
  from split_video_no_publish [of cfg e vp od sz tr] eq evs
  have "publish_calls evs = []"
    by simp
  with eq evs show ?thesis
    by simp
qed

lemma upload_split_video_order:
  "map publish_path (split_publishes cfg e vp vi sz mode target w) =
     take (length (split_publishes cfg e vp vi sz mode target w)) (planned_segments cfg e vp sz w)
   \<and> (\<forall>j. j + 1 < length (split_publishes cfg e vp vi sz mode target w) \<longrightarrow>
         publish_ok (split_publishes cfg e vp vi sz mode target w ! j))
   \<and> (length (split_publishes cfg e vp vi sz mode target w) < length (planned_segments cfg e vp sz w) \<longrightarrow>
         fst (upload_split_video cfg e vp vi sz mode target w) = None
         \<and> split_publishes cfg e vp vi sz mode target w \<noteq> []
         \<and> \<not> publish_ok (last (split_publishes cfg e vp vi sz mode target w)))
   \<and> (\<not> list_all publish_ok (split_publishes cfg e vp vi sz mode target w) \<longrightarrow>
         fst (upload_split_video cfg e vp vi sz mode target w) = None)
   \<and> (mode = ModeNew \<longrightarrow>
        (\<forall>j. 0 < j \<and> j < length (split_publishes cfg e vp vi sz mode target w) \<longrightarrow>
           append_target (split_publishes cfg e vp vi sz mode target w ! j) =
             Some (upload_id (split_publishes cfg e vp vi sz mode target w ! 0))))
   \<and> (mode = ModeAppend \<longrightarrow>
        (\<forall>j. j < length (split_publishes cfg e vp vi sz mode target w) \<longrightarrow>
           append_target (split_publishes cfg e vp vi sz mode target w ! j) = Some target))
   \<and> (length (planned_segments cfg e vp sz w) = 3
        \<and> 2 \<le> length (split_publishes cfg e vp vi sz mode target w)
        \<and> \<not> publish_ok (split_publishes cfg e vp vi sz mode target w ! 1) \<longrightarrow>
        map publish_path (split_publishes cfg e vp vi sz mode target w) =
          take 2 (planned_segments cfg e vp sz w))"
proof -
  obtain fs tr1 where sp: "split_video cfg e vp (split_dir cfg vp) sz (trace w) = (fs, tr1)"
    by (cases "split_video cfg e vp (split_dir cfg vp) sz (trace w)") auto
  from split_video_quiet [of cfg e vp "split_dir cfg vp" sz "trace w"] sp
  obtain es where es: "tr1 = trace w @ es" "publish_calls es = []"
    by auto
  have planned: "planned_segments cfg e vp sz w = fs"
    by (simp add: planned_segments_def sp)
  show ?thesis
  proof (cases "fs = []")
    case True
    with sp es have "split_publishes cfg e vp vi sz mode target w = []"
      by (simp add: split_publishes_def upload_split_video_def)
    with True planned show ?thesis
      by (cases mode) simp_all
  next
    case False
    obtain r tr2 where seg: "upload_segments cfg e vi mode 1 fs target tr1 = (r, tr2)"
      by (cases "upload_segments cfg e vi mode 1 fs target tr1") auto
    from upload_segments_run [OF seg] obtain evs where evs: "tr2 = tr1 @ evs"
      by blast
    from sp False seg have run: "upload_split_video cfg e vp vi sz mode target w = (r, w\<lparr>trace := tr2\<rparr>)"
      by (simp add: upload_split_video_def)
    have pubs: "split_publishes cfg e vp vi sz mode target w =
        publish_calls (new_events tr1 (snd (upload_segments cfg e vi mode 1 fs target tr1)))"
      unfolding split_publishes_def run seg using es evs by (simp add: new_events_def)
    have res: "fst (upload_split_video cfg e vp vi sz mode target w) =
        fst (upload_segments cfg e vi mode 1 fs target tr1)"
      unfolding run seg by simp
    show ?thesis
      unfolding pubs res planned by (rule upload_segments_order)
  qed
qed

text \<open>
  C2 (order of the segments, stop at the first failure), as the code has it. In one run
  of the split upload, that is in one attempt of the task, the publish calls follow the
  list of files that the planner returned, from its start: the \<open>i\<close>-th file is published
  only after the file before it was published with success; in create mode every later
  file is appended to the id that the publish of the first file yielded, in append mode
  every file goes to the given target; at the first failed publish the run returns no
  id and publishes no later file, so that with three files and a failed second publish
  the calls are those for the first two files only. The attempt then raises, and while
  attempts remain the retry loop starts the whole task again.
\<close>

theorem split_upload_in_order:
  "map publish_path (split_publishes cfg e vp vi sz mode target w) =
     take (length (split_publishes cfg e vp vi sz mode target w)) (planned_segments cfg e vp sz w)
   \<and> (\<forall>j. j + 1 < length (split_publishes cfg e vp vi sz mode target w) \<longrightarrow>
         publish_ok (split_publishes cfg e vp vi sz mode target w ! j))
   \<and> (length (split_publishes cfg e vp vi sz mode target w) < length (planned_segments cfg e vp sz w) \<longrightarrow>
         fst (upload_split_video cfg e vp vi sz mode target w) = None
         \<and> split_publishes cfg e vp vi sz mode target w \<noteq> []
         \<and> \<not> publish_ok (last (split_publishes cfg e vp vi sz mode target w)))
   \<and> (\<not> list_all publish_ok (split_publishes cfg e vp vi sz mode target w) \<longrightarrow>
         fst (upload_split_video cfg e vp vi sz mode target w) = None)
   \<and> (mode = ModeNew \<longrightarrow>
        (\<forall>j. 0 < j \<and> j < length (split_publishes cfg e vp vi sz mode target w) \<longrightarrow>
           append_target (split_publishes cfg e vp vi sz mode target w ! j) =
             Some (upload_id (split_publishes cfg e vp vi sz mode target w ! 0))))
   \<and> (mode = ModeAppend \<longrightarrow>
        (\<forall>j. j < length (split_publishes cfg e vp vi sz mode target w) \<longrightarrow>
           append_target (split_publishes cfg e vp vi sz mode target w ! j) = Some target))
   \<and> (length (planned_segments cfg e vp sz w) = 3
        \<and> 2 \<le> length (split_publishes cfg e vp vi sz mode target w)
        \<and> \<not> publish_ok (split_publishes cfg e vp vi sz mode target w ! 1) \<longrightarrow>
        map publish_path (split_publishes cfg e vp vi sz mode target w) =
          take 2 (planned_segments cfg e vp sz w))
   \<and> (needs_split_of cfg (vsize vd)
        \<and> fst (get_video_path cfg e (remote_path vd) (filename vd) (vsize vd)
              (needs_split_of cfg (vsize vd)) v) = Some vp
        \<and> fst (upload_split_video cfg e vp (info vd) (size_gb_of (vsize vd)) mode target
              (snd (get_video_path cfg e (remote_path vd) (filename vd) (vsize vd)
                 (needs_split_of cfg (vsize vd)) v))) = None \<longrightarrow>
        fst (attempt cfg e vd mode target v) = Some msg_upload_failed)
   \<and> (fst (attempt cfg e vd mode target v) = Some msg \<and> int a \<noteq> retry_times cfg - 1 \<longrightarrow>
        retry_loop cfg e vd mode target (a # rest) v =
          retry_loop cfg e vd mode target rest (log_event EvSleep (snd (attempt cfg e vd mode target v))))"
proof -
  have raise: "needs_split_of cfg (vsize vd)
        \<and> fst (get_video_path cfg e (remote_path vd) (filename vd) (vsize vd)
              (needs_split_of cfg (vsize vd)) v) = Some vp
        \<and> fst (upload_split_video cfg e vp (info vd) (size_gb_of (vsize vd)) mode target
              (snd (get_video_path cfg e (remote_path vd) (filename vd) (vsize vd)
                 (needs_split_of cfg (vsize vd)) v))) = None \<longrightarrow>
        fst (attempt cfg e vd mode target v) = Some msg_upload_failed"
    by (auto simp: attempt_def Let_def truthy_def split: prod.splits option.splits)
  have again: "fst (attempt cfg e vd mode target v) = Some msg \<and> int a \<noteq> retry_times cfg - 1 \<longrightarrow>
        retry_loop cfg e vd mode target (a # rest) v =
          retry_loop cfg e vd mode target rest (log_event EvSleep (snd (attempt cfg e vd mode target v)))"
    by (cases "attempt cfg e vd mode target v") auto
  from upload_split_video_order [of cfg e vp vi sz mode target w] raise again show ?thesis
    by blast
qed

text \<open>
  A file of 40 GB, cut in three. In create mode with every append failing, the first
  file is created, the append of the second fails, nothing is published for the third,
  the attempt raises and the retry loop goes on. In append mode with every call
  succeeding, the three files go to the given video.
\<close>

theorem split_upload_in_order_witness:
  "length (planned_segments ex_config ex_env_append_fails ''/tmp/cache/downloads/rec.flv'' 40 ex_world) = 3
   \<and> length ex_failed_run = 2
   \<and> publish_ok (ex_failed_run ! 0)
   \<and> \<not> publish_ok (ex_failed_run ! 1)
   \<and> \<not> list_all publish_ok ex_failed_run
   \<and> map publish_path ex_failed_run =
       take 2 (planned_segments ex_config ex_env_append_fails ''/tmp/cache/downloads/rec.flv'' 40 ex_world)
   \<and> fst (upload_split_video ex_config ex_env_append_fails ''/tmp/cache/downloads/rec.flv''
         (ex_info ''Title'') 40 ModeNew None ex_world) = None
   \<and> append_target (ex_failed_run ! 1) = Some (Some ''BV1xx411c7mD'')
   \<and> length ex_append_run = 3
   \<and> append_target (ex_append_run ! 2) = Some (Some ''BV1xx411c7mD'')
   \<and> needs_split_of ex_config (vsize (ex_video (40 * gib)))
   \<and> fst (attempt ex_config ex_env_append_fails (ex_video (40 * gib)) ModeNew None ex_world) =
       Some msg_upload_failed
   \<and> int 0 \<noteq> retry_times ex_config - 1
   \<and> retry_loop ex_config ex_env_append_fails (ex_video (40 * gib)) ModeNew None [0, 1, 2] ex_world =
       retry_loop ex_config ex_env_append_fails (ex_video (40 * gib)) ModeNew None [1, 2]
         (log_event EvSleep
            (snd (attempt ex_config ex_env_append_fails (ex_video (40 * gib)) ModeNew None ex_world)))"
proof -
  note t = split_upload_in_order [where cfg = ex_config and e = ex_env_append_fails
      and vp = "''/tmp/cache/downloads/rec.flv''" and vi = "ex_info ''Title''" and sz = 40
      and mode = ModeNew and target = None and w = ex_world and vd = "ex_video (40 * gib)"
      and v = ex_world and msg = msg_upload_failed and a = 0 and rest = "[1, 2]",
      folded ex_failed_run_def]
  note u = split_upload_in_order [where cfg = ex_config and e = ex_env
      and vp = "''/tmp/cache/downloads/rec.flv''" and vi = "ex_info ''Title''" and sz = 40
      and mode = ModeAppend and target = "Some ''BV1xx411c7mD''" and w = ex_world,
      folded ex_append_run_def]
  have a: "length (planned_segments ex_config ex_env_append_fails ''/tmp/cache/downloads/rec.flv'' 40
      ex_world) = 3"
    by code_simp
  have b: "length ex_failed_run = 2"
    by code_simp
  have c: "\<not> publish_ok (ex_failed_run ! 1)"
    by code_simp
  have d: "upload_id (ex_failed_run ! 0) = Some ''BV1xx411c7mD''"
    by code_simp
  have e: "length ex_append_run = 3"
    by code_simp
  have k: "\<not> list_all publish_ok ex_failed_run"
    by code_simp
  have n: "needs_split_of ex_config (vsize (ex_video (40 * gib)))"
    by code_simp
  have p: "fst (get_video_path ex_config ex_env_append_fails (remote_path (ex_video (40 * gib)))
      (filename (ex_video (40 * gib))) (vsize (ex_video (40 * gib)))
      (needs_split_of ex_config (vsize (ex_video (40 * gib)))) ex_world) =
      Some ''/tmp/cache/downloads/rec.flv''"
    by code_simp
  have q: "fst (upload_split_video ex_config ex_env_append_fails ''/tmp/cache/downloads/rec.flv''
      (info (ex_video (40 * gib))) (size_gb_of (vsize (ex_video (40 * gib)))) ModeNew None
      (snd (get_video_path ex_config ex_env_append_fails (remote_path (ex_video (40 * gib)))
         (filename (ex_video (40 * gib))) (vsize (ex_video (40 * gib)))
         (needs_split_of ex_config (vsize (ex_video (40 * gib)))) ex_world))) = None"
    by code_simp
  have r: "int 0 \<noteq> retry_times ex_config - 1"
    by (simp add: ex_config_def)
  from b have b': "0 + 1 < length ex_failed_run" "2 \<le> length ex_failed_run"
    "0 < (1 :: nat) \<and> 1 < length ex_failed_run"
    by auto
  from a b have f: "length ex_failed_run <
      length (planned_segments ex_config ex_env_append_fails ''/tmp/cache/downloads/rec.flv'' 40 ex_world)"
    by simp
  from t b'(1) have g: "publish_ok (ex_failed_run ! 0)"
    by blast
  from t a b'(2) c have h: "map publish_path ex_failed_run =
      take 2 (planned_segments ex_config ex_env_append_fails ''/tmp/cache/downloads/rec.flv'' 40 ex_world)"
    by blast
  from t f have i: "fst (upload_split_video ex_config ex_env_append_fails ''/tmp/cache/downloads/rec.flv''
      (ex_info ''Title'') 40 ModeNew None ex_world) = None"
    by blast
  from t b'(3) have "append_target (ex_failed_run ! 1) = Some (upload_id (ex_failed_run ! 0))"
    by blast
  with d have j: "append_target (ex_failed_run ! 1) = Some (Some ''BV1xx411c7mD'')"
    by simp
  from e have "2 < length ex_append_run"
    by simp
  with u have l: "append_target (ex_append_run ! 2) = Some (Some ''BV1xx411c7mD'')"
    by blast
  from t n p q have m: "fst (attempt ex_config ex_env_append_fails (ex_video (40 * gib)) ModeNew None
      ex_world) = Some msg_upload_failed"
    by blast
  from t m r have o: "retry_loop ex_config ex_env_append_fails (ex_video (40 * gib)) ModeNew None
      [0, 1, 2] ex_world =
       retry_loop ex_config ex_env_append_fails (ex_video (40 * gib)) ModeNew None [1, 2]
         (log_event EvSleep
            (snd (attempt ex_config ex_env_append_fails (ex_video (40 * gib)) ModeNew None ex_world)))"
    by blast
  from a b g c k h i j e l n m r o show ?thesis
    by blast
qed

text \<open>
  The claim as written fails for the task as a whole. The append of the second of three
  segments fails once; the attempt raises, and the second attempt creates the first
  segment again, appends the second and then publishes the third: the third segment is
  published after the second had failed, and the task ends with success.
\<close>

theorem retried_split_counterexample:
  "fst ex_flaky_task = True
   \<and> map publish_path (publish_calls (trace (snd ex_flaky_task))) =
       [''/tmp/cache/splits/rec/rec_part1.flv'', ''/tmp/cache/splits/rec/rec_part2.flv'',
        ''/tmp/cache/splits/rec/rec_part1.flv'', ''/tmp/cache/splits/rec/rec_part2.flv'',
        ''/tmp/cache/splits/rec/rec_part3.flv'']
   \<and> map publish_ok (publish_calls (trace (snd ex_flaky_task))) = [True, False, True, True, True]"
  by code_simp

subsection \<open>An upload that prints no id\<close>

lemma upload_video_no_id:
  assumes "\<forall>tr p c. \<exists>out. upload_result e tr p c = Exited 0 out \<and> find_bvid out = None"
  shows "fst (upload_video e p c tr) = None"
proof -
  let ?cover = "case c of None \<Rightarrow> None
     | Some x \<Rightarrow> if x \<noteq> [] \<and> cover_exists e tr x then Some x else None"
  from assms obtain out where "upload_result e tr p ?cover = Exited 0 out" "find_bvid out = None"
    by blast
  then show ?thesis
    by (simp add: upload_video_def parse_upload_def Let_def)
qed

text \<open>
  C10 (exit code 0 without an id). When the upload command of a direct task in create
  mode exits with 0 and its output holds no \<open>bvid:BV...\<close> token, \<open>upload_video\<close>
  returns no id and the attempt raises. If that happens at every attempt, the command
  has run with exit code 0 as many times as the retry count, and the task ends with a
  failure entry and without a success entry.
\<close>

theorem exit_zero_without_id_fails:
  assumes retries: "0 < retry_times cfg"
    and direct: "\<not> needs_split_of cfg (vsize vd)"
    and path: "\<forall>w. fst (get_video_path cfg e (remote_path vd) (filename vd) (vsize vd)
        (needs_split_of cfg (vsize vd)) w) \<noteq> None"
    and up: "\<forall>tr p c. \<exists>out. upload_result e tr p c = Exited 0 out \<and> find_bvid out = None"
  shows "fst (upload_video e p c tr) = None
     \<and> fst (upload_single_video cfg e vd ModeNew target w) = False
     \<and> history (hist (snd (upload_single_video cfg e vd ModeNew target w))) = history (hist w)
     \<and> length (filter upload_exit_zero
           (publish_calls (trace (snd (upload_single_video cfg e vd ModeNew target w))))) =
         length (filter upload_exit_zero (publish_calls (trace w))) + nat (retry_times cfg)
     \<and> length (publish_calls (trace (snd (upload_single_video cfg e vd ModeNew target w)))) =
         length (publish_calls (trace w)) + nat (retry_times cfg)
     \<and> (\<exists>t. failed (hist (snd (upload_single_video cfg e vd ModeNew target w))) =
           failed (hist w) @
             [\<lparr>failed_path = Some (remote_path vd), error_msg = msg_upload_failed, failed_time = t\<rparr>])"
proof -
  have step: "\<exists>w' ev. attempt cfg e vd ModeNew target v = (Some msg_upload_failed, w')
       \<and> hist w' = hist v \<and> stats_failed w' = stats_failed v \<and> stats_success w' = stats_success v
       \<and> publish_calls (trace w') = publish_calls (trace v) @ [ev] \<and> upload_exit_zero ev" for v
    using attempt_exit_zero [OF _ direct up, of v target] path by blast
  from retries have k: "0 < nat (retry_times cfg)"
    by simp
  from retry_loop_exhausted [where P = upload_exit_zero, OF step k, of w]
  obtain w' evs t where a:
    "upload_single_video cfg e vd ModeNew target w = (False, w')"
    "history (hist w') = history (hist w)"
    "failed (hist w') = failed (hist w) @
          [\<lparr>failed_path = Some (remote_path vd), error_msg = msg_upload_failed, failed_time = t\<rparr>]"
    "publish_calls (trace w') = publish_calls (trace w) @ evs"
    "length evs = nat (retry_times cfg) - 0" "list_all upload_exit_zero evs"
    unfolding upload_single_video_def by blast
  from a(6) have "filter upload_exit_zero evs = evs"
    by (simp add: list_all_iff)
  with a upload_video_no_id [OF up, of p c tr] show ?thesis
    by auto
qed

theorem exit_zero_without_id_fails_witness:
  "0 < retry_times ex_config
   \<and> \<not> needs_split_of ex_config (vsize (ex_video (5 * gib)))
   \<and> (\<forall>w. fst (get_video_path ex_config ex_env_no_id (remote_path (ex_video (5 * gib)))
          (filename (ex_video (5 * gib))) (vsize (ex_video (5 * gib)))
          (needs_split_of ex_config (vsize (ex_video (5 * gib)))) w) \<noteq> None)
   \<and> (\<forall>tr p c. upload_result ex_env_no_id tr p c = Exited 0 ''upload finished'')
   \<and> find_bvid ''upload finished'' = None
   \<and> fst (upload_video ex_env_no_id ''/mnt/remote/1001-name/rec.flv'' None []) = None
   \<and> fst (upload_single_video ex_config ex_env_no_id (ex_video (5 * gib)) ModeNew None ex_world) = False
   \<and> history (hist (snd (upload_single_video ex_config ex_env_no_id (ex_video (5 * gib)) ModeNew None
         ex_world))) = []
   \<and> length (filter upload_exit_zero (publish_calls (trace (snd (upload_single_video ex_config
         ex_env_no_id (ex_video (5 * gib)) ModeNew None ex_world))))) = 3
   \<and> length (failed (hist (snd (upload_single_video ex_config ex_env_no_id (ex_video (5 * gib)) ModeNew
         None ex_world)))) = 1"
proof -
  have a: "0 < retry_times ex_config" "nat (retry_times ex_config) = 3"
    by (simp_all add: ex_config_def)
  have b: "\<not> needs_split_of ex_config (vsize (ex_video (5 * gib)))"
    by (simp add: ex_video_def ex_direct)
  have c: "\<forall>w. fst (get_video_path ex_config ex_env_no_id (remote_path (ex_video (5 * gib)))
          (filename (ex_video (5 * gib))) (vsize (ex_video (5 * gib)))
          (needs_split_of ex_config (vsize (ex_video (5 * gib)))) w) \<noteq> None"
    by (simp add: ex_video_def ex_direct ex_env_no_id_def ex_direct_path)
  have d: "\<forall>tr p c. upload_result ex_env_no_id tr p c = Exited 0 ''upload finished''"
    by (simp add: ex_env_no_id_def)
  have e: "find_bvid ''upload finished'' = None"
    by code_simp
  from d e have f: "\<forall>tr p c. \<exists>out. upload_result ex_env_no_id tr p c = Exited 0 out \<and> find_bvid out = None"
    by blast
  have g: "publish_calls (trace ex_world) = []" "history (hist ex_world) = []" "failed (hist ex_world) = []"
    by (simp_all add: ex_world_def empty_ledger_def init_history_def load_file_def)
  note t = exit_zero_without_id_fails [OF a(1) b c f, of "''/mnt/remote/1001-name/rec.flv''" None "[]"
      None ex_world]
  from t have h1: "fst (upload_video ex_env_no_id ''/mnt/remote/1001-name/rec.flv'' None []) = None"
    "fst (upload_single_video ex_config ex_env_no_id (ex_video (5 * gib)) ModeNew None ex_world) = False"
    by blast+
  from t have "history (hist (snd (upload_single_video ex_config ex_env_no_id (ex_video (5 * gib)) ModeNew
      None ex_world))) = history (hist ex_world)"
    by blast
  with g have h2: "history (hist (snd (upload_single_video ex_config ex_env_no_id (ex_video (5 * gib))
      ModeNew None ex_world))) = []"
    by simp
  from t have "length (filter upload_exit_zero (publish_calls (trace (snd (upload_single_video ex_config
         ex_env_no_id (ex_video (5 * gib)) ModeNew None ex_world))))) =
      length (filter upload_exit_zero (publish_calls (trace ex_world))) + nat (retry_times ex_config)"
    by blast
  with g a(2) have h3: "length (filter upload_exit_zero (publish_calls (trace (snd (upload_single_video
      ex_config ex_env_no_id (ex_video (5 * gib)) ModeNew None ex_world))))) = 3"
    by simp
  from t obtain ft where "failed (hist (snd (upload_single_video ex_config ex_env_no_id
      (ex_video (5 * gib)) ModeNew None ex_world))) =
       failed (hist ex_world) @
         [\<lparr>failed_path = Some (remote_path (ex_video (5 * gib))), error_msg = msg_upload_failed,
           failed_time = ft\<rparr>]"
    by blast
  with g have h4: "length (failed (hist (snd (upload_single_video ex_config ex_env_no_id
      (ex_video (5 * gib)) ModeNew None ex_world)))) = 1"
    by simp
  from a(1) b c d e h1 h2 h3 h4 show ?thesis
    by blast
qed

subsection \<open>The success entry\<close>

text \<open>
  Whatever the task, the entry recorded on success is keyed by the remote path and the
  size of the source, its flag says whether the source was split, and its list of parts
  is empty: the controller passes no parts to \<open>add_success\<close>.
\<close>

lemma attempt_success_entry:
  assumes "attempt cfg e vd mode target w = (None, w')"
  shows "\<exists>b t. history (hist w') = history (hist w) @
     [\<lparr>file_path = Val (remote_path vd), file_size = Val (vsize vd), bvid = b, upload_time = t,
       is_split = needs_split_of cfg (vsize vd), parts = []\<rparr>]"
proof -
  let ?ns = "needs_split_of cfg (vsize vd)"
  obtain p w1 where gvp:
    "get_video_path cfg e (remote_path vd) (filename vd) (vsize vd) ?ns w = (p, w1)"
    by (cases "get_video_path cfg e (remote_path vd) (filename vd) (vsize vd) ?ns w") auto
  with assms obtain vp where vp: "p = Some vp"
    by (cases p) (auto simp: attempt_def Let_def)
  note f1 = get_video_path_frame [OF gvp]
  obtain r w2 where run:
    "(if ?ns then upload_split_video cfg e vp (info vd) (size_gb_of (vsize vd)) mode target w1
      else upload_normal_video cfg e vp (info vd) mode target w1) = (r, w2)"
    by (cases "if ?ns then upload_split_video cfg e vp (info vd) (size_gb_of (vsize vd)) mode target w1
      else upload_normal_video cfg e vp (info vd) mode target w1") auto
  then have f2: "hist w2 = hist w1"
    using upload_split_video_frame upload_normal_video_frame by (auto split: if_splits)
  from assms gvp vp run f1 f2 show ?thesis
    by (auto simp: attempt_def Let_def add_success_def save_history_def log_event_def
        split: if_splits)
qed

text \<open>
  C8 (contents of the success entry of a split upload), evaluated on a source of 29 GB
  that is cut in two segments, both published with success: the entry is keyed by the
  remote path and the size of the source and is marked as split, but its list of parts
  is empty, where the claim asks for the ordered identifiers of the two segments.
\<close>

theorem split_success_entry_has_no_parts:
  "needs_split_of ex_config (29 * gib)
   \<and> map publish_path (publish_calls (trace ex_split_world)) =
       [''/tmp/cache/splits/rec/rec_part1.flv'', ''/tmp/cache/splits/rec/rec_part2.flv'']
   \<and> list_all publish_ok (publish_calls (trace ex_split_world))
   \<and> history (hist ex_split_world) =
       [\<lparr>file_path = Val ''1001-name/rec.flv'', file_size = Val (29 * gib),
         bvid = Val ''BV1xx411c7mD'', upload_time = ''2024-01-15 14:00:00'', is_split = True,
         parts = []\<rparr>]"
  by code_simp

end
